theory Spec2Isabelle
  imports Main "HOL-Library.AList"
begin

section \<open>Network Share Automount: the indicator of extension.js\<close>

text \<open>
  The program is the class \<open>NetworkMountIndicator\<close> of \<open>src/extension.js\<close> together with
  the settings schema. Its methods are embedded one by one, under their own names (without
  the leading underscore; a method whose name is also a field of a bookmark carries the
  suffix \<open>_fn\<close>). Mutation of \<open>this\<close> is explicit state passing over the record
  \<open>indicator\<close>; bookmark objects live in a store indexed by references, because
  closures and the bookmark array share them. What the program calls but does not contain
  (the file system, the table of mounts, the main loop's timers, the clock) is the record
  \<open>os_state\<close> with the operations of its interface; \<open>JSON.parse\<close>,
  \<open>JSON.stringify\<close> and \<open>GLib.Uri.parse\<close> are parameters (record \<open>platform\<close>).
  Menu rendering changes nothing but widgets and is left out; the symbolic-link refresh
  that \<open>_updateBookmarksList\<close> performs while rendering is kept.
\<close>

subsection \<open>Strings\<close>

text \<open>
  A JavaScript string is a sequence of UTF-16 code units; the regular expressions of the
  source (written without the \<open>u\<close> flag) work on code units. A literal is written
  \<open>js ''...''\<close>.
\<close>

type_synonym jsstring = "nat list"

abbreviation js :: "string \<Rightarrow> jsstring" where
  "js s \<equiv> map of_char s"

text \<open>The class \<open>\s\<close> of ECMAScript: white space and line terminators.\<close>

definition is_js_whitespace :: "nat \<Rightarrow> bool" where
  "is_js_whitespace c \<longleftrightarrow>
     c = 9 \<or> c = 10 \<or> c = 11 \<or> c = 12 \<or> c = 13 \<or> c = 32 \<or> c = 160 \<or> c = 5760 \<or>
     (8192 \<le> c \<and> c \<le> 8202) \<or> c = 8232 \<or> c = 8233 \<or> c = 8239 \<or> c = 8287 \<or>
     c = 12288 \<or> c = 65279"

text \<open>The class \<open>[<>:"\/\\|?*]\<close>, by code unit: \<open>< > : " / \ | ? *\<close>.\<close>

definition is_problematic :: "nat \<Rightarrow> bool" where
  "is_problematic c \<longleftrightarrow>
     c = 60 \<or> c = 62 \<or> c = 58 \<or> c = 34 \<or> c = 47 \<or> c = 92 \<or> c = 124 \<or> c = 63 \<or> c = 42"

text \<open>
  \<open>s.replace(/C+/g, r)\<close> for a character class \<open>C\<close>: scanning from the left, every
  maximal run of characters of the class becomes the one character \<open>r\<close>.
\<close>

function replace_runs :: "('a \<Rightarrow> bool) \<Rightarrow> 'a \<Rightarrow> 'a list \<Rightarrow> 'a list" where
  "replace_runs P r [] = []"
| "replace_runs P r (c # cs) =
     (if P c then r # replace_runs P r (dropWhile P cs) else c # replace_runs P r cs)"
  by pat_completeness auto
termination
  by (relation "measure (\<lambda>(P, r, cs). length cs)")
     (auto simp: le_imp_less_Suc length_dropWhile_le)

text \<open>
  \<open>s.replace(/^_|_$/g, '')\<close>: one underscore at the start is removed, and one at the
  end of what is left (the two alternatives cannot match the same character).
\<close>

definition strip_edge_underscores :: "jsstring \<Rightarrow> jsstring" where
  "strip_edge_underscores s =
     (let s1 = (case s of [] \<Rightarrow> [] | c # cs \<Rightarrow> if c = 95 then cs else s)
      in if s1 \<noteq> [] \<and> last s1 = 95 then butlast s1 else s1)"

definition sanitizeForFilename :: "jsstring \<Rightarrow> jsstring" where
  "sanitizeForFilename nm =
     strip_edge_underscores
       (replace_runs (\<lambda>c. c = 95) 95
         (replace_runs is_js_whitespace 95
           (map (\<lambda>c. if is_problematic c then 95 else c) nm)))"

text \<open>\<open>String.prototype.trim\<close>, \<open>split\<close> on one character, \<open>join\<close>, \<open>startsWith\<close>,
  \<open>includes\<close>.\<close>

definition js_trim :: "jsstring \<Rightarrow> jsstring" where
  "js_trim s = rev (dropWhile is_js_whitespace (rev (dropWhile is_js_whitespace s)))"

fun js_split :: "nat \<Rightarrow> jsstring \<Rightarrow> jsstring list" where
  "js_split sep [] = [[]]"
| "js_split sep (c # cs) =
     (if c = sep then [] # js_split sep cs
      else (case js_split sep cs of [] \<Rightarrow> [[c]] | w # ws \<Rightarrow> (c # w) # ws))"

fun js_join :: "jsstring \<Rightarrow> jsstring list \<Rightarrow> jsstring" where
  "js_join sep [] = []"
| "js_join sep [w] = w"
| "js_join sep (w # ws) = w @ sep @ js_join sep ws"

definition startsWith :: "jsstring \<Rightarrow> jsstring \<Rightarrow> bool" where
  "startsWith s p \<longleftrightarrow> take (length p) s = p"

fun includes_str :: "jsstring \<Rightarrow> jsstring \<Rightarrow> bool" where
  "includes_str [] p \<longleftrightarrow> p = []"
| "includes_str (c # cs) p \<longleftrightarrow> startsWith (c # cs) p \<or> includes_str cs p"

text \<open>The decimal digits of a number, for the template literals.\<close>

fun digits :: "nat \<Rightarrow> jsstring" where
  "digits n = (if n < 10 then [48 + n] else digits (n div 10) @ [48 + n mod 10])"

declare digits.simps [simp del]

definition int_to_string :: "int \<Rightarrow> jsstring" where
  "int_to_string i = (if i < 0 then 45 # digits (nat (- i)) else digits (nat i))"

subsection \<open>Data\<close>

text \<open>A bookmark object, as \<open>_loadBookmarks\<close> creates it.\<close>

record bookmark =
  uri :: jsstring
  name :: jsstring
  enabled :: bool
  createSymlink :: bool
  symlinkPath :: jsstring
  lastAttempt :: int
  failCount :: int

text \<open>The keys of the settings schema, with their defaults.\<close>

record settings =
  check_interval :: int
  show_notifications :: bool
  show_success_notifications :: bool
  show_error_notifications :: bool
  custom_mount_base :: jsstring
  bookmark_settings :: jsstring
  retry_attempts :: int
  retry_delay :: int

definition default_settings :: settings where
  "default_settings =
     \<lparr>check_interval = 5, show_notifications = True, show_success_notifications = False,
      show_error_notifications = True, custom_mount_base = [], bookmark_settings = js ''{}'',
      retry_attempts = 3, retry_delay = 30\<rparr>"

text \<open>JSON values, as \<open>JSON.parse\<close> returns them (numbers restricted to integers).\<close>

datatype json =
  JNull | JBool bool | JNum int | JStr jsstring | JArr "json list"
  | JObj "(jsstring \<times> json) list"

text \<open>What the program calls and does not contain.\<close>

record platform =
  JSON_parse :: "jsstring \<Rightarrow> json option"
  JSON_stringify :: "json \<Rightarrow> jsstring"
  Uri_parse :: "jsstring \<Rightarrow> (jsstring option \<times> jsstring option) option"

datatype fsentry = Symlink jsstring | RegularFile | Directory

datatype file_read = Missing | Unreadable | Contents jsstring

text \<open>
  The operating system as the program observes it: a table of file system entries by path
  (a query does not follow the link at the path itself, so a dangling link exists), the
  paths on which a change is refused, the mounts by URI with the local path of their root
  (absent when the mount has none), the URIs for which the mount request itself throws,
  the bookmarks file of GTK, the home directory and the clock.
\<close>

record os_state =
  home_dir :: jsstring
  clock :: int
  entries :: "jsstring \<rightharpoonup> fsentry"
  locked :: "jsstring set"
  mounts :: "jsstring \<rightharpoonup> jsstring option"
  mount_throws :: "jsstring \<rightharpoonup> jsstring"
  bookmarks_file :: file_read

datatype io_error = Exists | Failed

definition make_directory_with_parents :: "os_state \<Rightarrow> jsstring \<Rightarrow> io_error + os_state" where
  "make_directory_with_parents os p =
     (if entries os p \<noteq> None then Inl Exists
      else if p \<in> locked os then Inl Failed
      else Inr (os\<lparr>entries := (entries os)(p \<mapsto> Directory)\<rparr>))"

definition make_symbolic_link :: "os_state \<Rightarrow> jsstring \<Rightarrow> jsstring \<Rightarrow> io_error + os_state" where
  "make_symbolic_link os p target =
     (if entries os p \<noteq> None then Inl Exists
      else if p \<in> locked os then Inl Failed
      else Inr (os\<lparr>entries := (entries os)(p \<mapsto> Symlink target)\<rparr>))"

definition delete_file :: "os_state \<Rightarrow> jsstring \<Rightarrow> io_error + os_state" where
  "delete_file os p =
     (if p \<in> locked os then Inl Failed
      else Inr (os\<lparr>entries := (entries os)(p := None)\<rparr>))"

text \<open>\<open>g_path_get_dirname\<close>: the text before the last \<open>/\<close>, without the slashes that
  end it; \<open>.\<close> when there is no slash, \<open>/\<close> when nothing is left.\<close>

definition path_get_dirname :: "jsstring \<Rightarrow> jsstring" where
  "path_get_dirname p =
     (if 47 \<notin> set p then [46]
      else let pre = rev (dropWhile (\<lambda>c. c = 47) (tl (dropWhile (\<lambda>c. c \<noteq> 47) (rev p))))
           in if pre = [] then [47] else pre)"

text \<open>The callbacks the program hands to \<open>GLib.timeout_add_seconds\<close>, with what each
  closure captures.\<close>

datatype task =
  StartupMount
  | StatusRefresh
  | SymlinkAfterMount nat bool
  | RetryMount nat
  | PeriodicCheck

record notification =
  title :: jsstring
  message :: jsstring
  urgent :: bool

datatype level = Info | Error

text \<open>
  The indicator. \<open>objs\<close> is the store of bookmark objects and \<open>bookmarks\<close> the array
  \<open>this._bookmarks\<close> of references into it; \<open>sources\<close> are the main loop's pending
  timers (identifier, interval in seconds, callback); \<open>pendingMounts\<close> are the mount
  requests issued and not yet answered, each with the bookmark and the \<open>isStartup\<close>
  flag its callback captured, and \<open>pendingUnmounts\<close> likewise.
\<close>

record indicator =
  settings :: settings
  os :: os_state
  objs :: "nat \<Rightarrow> bookmark"
  next_obj :: nat
  bookmarks :: "nat list"
  mountedLocations :: "jsstring \<rightharpoonup> int"
  symlinkPaths :: "jsstring \<rightharpoonup> jsstring"
  timeoutId :: "nat option"
  timeoutIds :: "nat set"
  sources :: "(nat \<times> int \<times> task) list"
  startupMountInProgress :: bool
  pendingMounts :: "(nat \<times> bool) list"
  pendingUnmounts :: "nat list"
  shown :: "notification list"
  console :: "(level \<times> jsstring) list"
  source_destroyed :: bool

subsection \<open>Console, notifications, timers\<close>

definition console_log :: "indicator \<Rightarrow> jsstring \<Rightarrow> indicator" where
  "console_log s m = s\<lparr>console := console s @ [(Info, m)]\<rparr>"

definition console_error :: "indicator \<Rightarrow> jsstring \<Rightarrow> indicator" where
  "console_error s m = s\<lparr>console := console s @ [(Error, m)]\<rparr>"

definition notify :: "indicator \<Rightarrow> jsstring \<Rightarrow> jsstring \<Rightarrow> bool \<Rightarrow> indicator" where
  "notify s ttl msg isError =
     (if \<not> show_notifications (settings s) then s
      else if isError \<and> \<not> show_error_notifications (settings s) then s
      else if \<not> isError \<and> \<not> show_success_notifications (settings s) then s
      else s\<lparr>shown := shown s @ [\<lparr>title = ttl, message = msg, urgent = isError\<rparr>]\<rparr>)"

text \<open>\<open>GLib.timeout_add_seconds\<close> returns an identifier greater than 0 that no pending
  source has; \<open>GLib.source_remove\<close> drops the source with the identifier.\<close>

definition new_source_id :: "(nat \<times> int \<times> task) list \<Rightarrow> nat" where
  "new_source_id srcs = Suc (fold max (map fst srcs) 0)"

definition timeout_add_seconds :: "indicator \<Rightarrow> int \<Rightarrow> task \<Rightarrow> nat \<times> indicator" where
  "timeout_add_seconds s secs t =
     (let i = new_source_id (sources s)
      in (i, s\<lparr>sources := sources s @ [(i, secs, t)]\<rparr>))"

definition source_remove :: "indicator \<Rightarrow> nat \<Rightarrow> indicator" where
  "source_remove s i = s\<lparr>sources := filter (\<lambda>src. fst src \<noteq> i) (sources s)\<rparr>"

subsection \<open>Mount state and symbolic links\<close>

definition isLocationMounted :: "indicator \<Rightarrow> jsstring \<Rightarrow> bool" where
  "isLocationMounted s u \<longleftrightarrow> mounts (os s) u \<noteq> None"

definition getGvfsMountPath :: "indicator \<Rightarrow> jsstring \<Rightarrow> jsstring option \<times> indicator" where
  "getGvfsMountPath s u =
     (case mounts (os s) u of
        None \<Rightarrow> (None, console_error s (js ''Error getting GVFS mount path:''))
      | Some root \<Rightarrow> (root, s))"

definition getSymlinkPath :: "indicator \<Rightarrow> bookmark \<Rightarrow> jsstring" where
  "getSymlinkPath s b =
     (let basePath = custom_mount_base (settings s);
          basePath = (if basePath = [] then home_dir (os s) @ js ''/NetworkMounts'' else basePath);
          linkName = (if symlinkPath b \<noteq> [] then symlinkPath b else sanitizeForFilename (name b))
      in basePath @ js ''/'' @ linkName)"

definition removeSymlink :: "indicator \<Rightarrow> bookmark \<Rightarrow> bool \<times> indicator" where
  "removeSymlink s b =
     (let p = (case symlinkPaths s (uri b) of
                 None \<Rightarrow> getSymlinkPath s b
               | Some t \<Rightarrow> if t = [] then getSymlinkPath s b else t);
          cleared = (\<lambda>s'. s'\<lparr>symlinkPaths := (symlinkPaths s') (uri b := None)\<rparr>)
      in case entries (os s) p of
           Some (Symlink target) \<Rightarrow>
             (case delete_file (os s) p of
                Inl e \<Rightarrow> (False, console_error s (js ''Error removing symlink:''))
              | Inr os' \<Rightarrow> (True, cleared (console_log (s\<lparr>os := os'\<rparr>) (js ''Removed symlink: '' @ p))))
         | _ \<Rightarrow> (True, cleared s))"

definition createSymlink_fn :: "indicator \<Rightarrow> bookmark \<Rightarrow> bool \<times> indicator" where
  "createSymlink_fn s b =
     (if \<not> createSymlink b then (True, s)
      else case getGvfsMountPath s (uri b) of (gv, s1) \<Rightarrow>
        (case (case gv of None \<Rightarrow> None | Some g \<Rightarrow> if g = [] then None else Some g) of
           None \<Rightarrow> (False, console_error s1 (js ''Could not get GVFS mount path for:''))
         | Some gvfsPath \<Rightarrow>
             (let symlinkPath = getSymlinkPath s1 b;
                  symlinkDir = path_get_dirname symlinkPath
              in case make_directory_with_parents (os s1) symlinkDir of
                   Inl Failed \<Rightarrow> (False, console_error s1 (js ''Failed to create symlink directory:''))
                 | made \<Rightarrow>
                     (let s2 = (case made of Inr os' \<Rightarrow> s1\<lparr>os := os'\<rparr> | Inl e \<Rightarrow> s1);
                          s3 = snd (removeSymlink s2 b)
                      in case make_symbolic_link (os s3) symlinkPath gvfsPath of
                           Inl e \<Rightarrow>
                             (False, console_error s3
                                (js ''Failed to create symlink for '' @ name b @ js '':''))
                         | Inr os' \<Rightarrow>
                             (True, console_log
                                (s3\<lparr>os := os', symlinkPaths := (symlinkPaths s3)(uri b \<mapsto> symlinkPath)\<rparr>)
                                (js ''Created symlink: '' @ symlinkPath @ [32, 8594, 32] @ gvfsPath))))))"

subsection \<open>Bookmarks and their persisted settings\<close>

text \<open>Truthiness, property access and string conversion of a JSON value. A property
  that is absent reads as \<open>undefined\<close> (\<open>None\<close>); only \<open>null\<close> has no properties to
  read, and reading one raises.\<close>

fun truthy :: "json \<Rightarrow> bool" where
  "truthy JNull \<longleftrightarrow> False"
| "truthy (JBool b) \<longleftrightarrow> b"
| "truthy (JNum n) \<longleftrightarrow> n \<noteq> 0"
| "truthy (JStr t) \<longleftrightarrow> t \<noteq> []"
| "truthy (JArr xs) \<longleftrightarrow> True"
| "truthy (JObj kvs) \<longleftrightarrow> True"

fun json_get :: "json \<Rightarrow> jsstring \<Rightarrow> json option" where
  "json_get (JObj kvs) k = map_of kvs k"
| "json_get v k = None"

fun json_to_string :: "json \<Rightarrow> jsstring" where
  "json_to_string JNull = js ''null''"
| "json_to_string (JBool b) = (if b then js ''true'' else js ''false'')"
| "json_to_string (JNum n) = int_to_string n"
| "json_to_string (JStr t) = t"
| "json_to_string (JArr xs) =
     js_join (js '','') (map (\<lambda>x. if x = JNull then [] else json_to_string x) xs)"
| "json_to_string (JObj kvs) = js ''[object Object]''"

text \<open>
  The body of the \<open>forEach\<close> of \<open>_loadBookmarkSettings\<close>, for one bookmark. The
  settings are written with a boolean for \<open>createSymlink\<close> and a string for
  \<open>symlinkPath\<close>, and the bookmark record has these types. A persisted value of another
  type, which the program would keep as it is, is kept here by its truthiness and its
  string form.
\<close>

definition apply_persisted :: "json \<Rightarrow> bookmark \<Rightarrow> bookmark" where
  "apply_persisted bookmarkSettings b =
     (case json_get bookmarkSettings (uri b) of
        None \<Rightarrow> b
      | Some st \<Rightarrow>
          if truthy st
          then b\<lparr>enabled := (json_get st (js ''enabled'') \<noteq> Some (JBool False)),
                 createSymlink := (case json_get st (js ''createSymlink'') of
                                     None \<Rightarrow> False | Some v \<Rightarrow> truthy v),
                 symlinkPath := (case json_get st (js ''symlinkPath'') of
                                   None \<Rightarrow> []
                                 | Some v \<Rightarrow> if truthy v then json_to_string v else [])\<rparr>
          else b)"

definition loadBookmarkSettings :: "platform \<Rightarrow> indicator \<Rightarrow> indicator" where
  "loadBookmarkSettings rt s =
     (let settingsStr = bookmark_settings (settings s)
      in if settingsStr = [] then s
         else case JSON_parse rt settingsStr of
                None \<Rightarrow> console_error s (js ''Error loading bookmark settings:'')
              | Some JNull \<Rightarrow>
                  if bookmarks s = [] then s
                  else console_error s (js ''Error loading bookmark settings:'')
              | Some bookmarkSettings \<Rightarrow>
                  s\<lparr>objs := fold (\<lambda>r ob. ob(r := apply_persisted bookmarkSettings (ob r)))
                                (bookmarks s) (objs s)\<rparr>)"

definition saveBookmarkSettings :: "platform \<Rightarrow> indicator \<Rightarrow> indicator" where
  "saveBookmarkSettings rt s =
     (let bookmarkSettings =
            fold (\<lambda>r kvs. AList.update (uri (objs s r))
                    (JObj [(js ''enabled'', JBool (enabled (objs s r))),
                           (js ''createSymlink'', JBool (createSymlink (objs s r))),
                           (js ''symlinkPath'', JStr (symlinkPath (objs s r)))]) kvs)
                 (bookmarks s) []
      in s\<lparr>settings := (settings s)\<lparr>bookmark_settings := JSON_stringify rt (JObj bookmarkSettings)\<rparr>\<rparr>)"

definition extractNameFromUri :: "platform \<Rightarrow> jsstring \<Rightarrow> jsstring" where
  "extractNameFromUri rt u =
     (case Uri_parse rt u of
        None \<Rightarrow> u
      | Some (h, p) \<Rightarrow>
          (let path = (case p of None \<Rightarrow> [] | Some q \<Rightarrow> q);
               host = (case h of None \<Rightarrow> js ''unknown''
                       | Some g \<Rightarrow> if g = [] then js ''unknown'' else g)
           in if length path > 1 then host @ path else host))"

text \<open>The symbolic-link refresh of \<open>_updateBookmarksList\<close> (the rest of it renders the
  menu).\<close>

definition updateBookmarksList :: "indicator \<Rightarrow> indicator" where
  "updateBookmarksList s =
     fold (\<lambda>r s'. if isLocationMounted s' (uri (objs s' r)) \<and> createSymlink (objs s' r)
                   then snd (createSymlink_fn s' (objs s' r)) else s')
          (bookmarks s) s"

definition parse_bookmark_line :: "platform \<Rightarrow> jsstring \<Rightarrow> bookmark" where
  "parse_bookmark_line rt line =
     (let parts = js_split 32 (js_trim line);
          u = (case parts of [] \<Rightarrow> [] | w # ws \<Rightarrow> w);
          nameParts = (case parts of [] \<Rightarrow> [] | w # ws \<Rightarrow> ws);
          joined = js_join (js '' '') nameParts
      in \<lparr>uri = u, name = (if joined \<noteq> [] then joined else extractNameFromUri rt u),
          enabled = True, createSymlink = False, symlinkPath = [], lastAttempt = 0,
          failCount = 0\<rparr>)"

definition loadBookmarks :: "platform \<Rightarrow> indicator \<Rightarrow> indicator" where
  "loadBookmarks rt s =
     (case bookmarks_file (os s) of
        Missing \<Rightarrow> updateBookmarksList s
      | Unreadable \<Rightarrow> (console_error s (js ''Error loading bookmarks:''))\<lparr>bookmarks := []\<rparr>
      | Contents c \<Rightarrow>
          (let bookmarkLines = js_split 10 c;
               kept = filter (\<lambda>line. js_trim line \<noteq> [] \<and> includes_str line (js ''://'') \<and>
                                      \<not> startsWith line (js ''file://'')) bookmarkLines;
               created = map (parse_bookmark_line rt) kept;
               refs = [next_obj s ..< next_obj s + length created];
               s1 = s\<lparr>objs := fold (\<lambda>(r, b) ob. ob(r := b)) (zip refs created) (objs s),
                       next_obj := next_obj s + length created,
                       bookmarks := refs\<rparr>
           in updateBookmarksList (loadBookmarkSettings rt s1)))"

subsection \<open>Mounting, failures and retries\<close>

definition scheduleRetry :: "indicator \<Rightarrow> nat \<Rightarrow> int \<Rightarrow> indicator" where
  "scheduleRetry s r delaySecs =
     (case timeout_add_seconds s delaySecs (RetryMount r) of
        (retryTimeoutId, s1) \<Rightarrow> s1\<lparr>timeoutIds := insert retryTimeoutId (timeoutIds s1)\<rparr>)"

definition handleMountFailure :: "indicator \<Rightarrow> nat \<Rightarrow> jsstring \<Rightarrow> indicator" where
  "handleMountFailure s r errorMsg =
     (let b = (objs s r)\<lparr>failCount := failCount (objs s r) + 1, lastAttempt := clock (os s)\<rparr>;
          s1 = s\<lparr>objs := (objs s)(r := b)\<rparr>;
          maxRetries = retry_attempts (settings s1)
      in if failCount b \<le> maxRetries
         then notify (scheduleRetry s1 r (retry_delay (settings s1)))
                (js ''Mount Failed - Retrying'')
                (name b @ js '' (attempt '' @ int_to_string (failCount b) @ js ''/'' @
                 int_to_string maxRetries @ js '')'')
                True
         else notify s1 (js ''Mount Failed'') (name b @ js '': '' @ errorMsg) True)"

definition mountLocation :: "indicator \<Rightarrow> nat \<Rightarrow> bool \<Rightarrow> bool \<Rightarrow> indicator" where
  "mountLocation s r isRetry isStartup =
     (let b = objs s r
      in if isLocationMounted s (uri b)
         then (let s1 = snd (createSymlink_fn s b)
               in if \<not> isRetry \<and> \<not> isStartup
                  then notify s1 (js ''Already Mounted'') (name b) False else s1)
         else (case mount_throws (os s) (uri b) of
                 Some msg \<Rightarrow>
                   handleMountFailure (console_error s (js ''Error mounting '' @ name b @ js '':''))
                     r msg
               | None \<Rightarrow> s\<lparr>pendingMounts := pendingMounts s @ [(r, isStartup)]\<rparr>))"

text \<open>The callback of \<open>mount_enclosing_volume\<close>, with the answer of the mount service.\<close>

datatype mount_result = MountOk | MountError jsstring

definition mountCallback :: "indicator \<Rightarrow> nat \<Rightarrow> bool \<Rightarrow> mount_result \<Rightarrow> indicator" where
  "mountCallback s r isStartup res =
     (case res of
        MountOk \<Rightarrow>
          (let s1 = console_log s (js ''Successfully mounted: '' @ name (objs s r));
               s2 = s1\<lparr>objs := (objs s1)(r := (objs s1 r)\<lparr>failCount := 0,
                                                            lastAttempt := clock (os s1)\<rparr>),
                       mountedLocations :=
                         (mountedLocations s1)(uri (objs s1 r) \<mapsto> clock (os s1))\<rparr>
           in case timeout_add_seconds s2 1 (SymlinkAfterMount r isStartup) of
                (symlinkTimeoutId, s3) \<Rightarrow>
                  s3\<lparr>timeoutIds := insert symlinkTimeoutId (timeoutIds s3)\<rparr>)
      | MountError msg \<Rightarrow>
          handleMountFailure
            (console_error s (js ''Failed to mount '' @ name (objs s r) @ js '':'')) r msg)"

definition completeMount :: "indicator \<Rightarrow> nat \<Rightarrow> mount_result \<Rightarrow> indicator" where
  "completeMount s k res =
     (if k < length (pendingMounts s)
      then mountCallback
             (s\<lparr>pendingMounts := take k (pendingMounts s) @ drop (Suc k) (pendingMounts s)\<rparr>)
             (fst (pendingMounts s ! k)) (snd (pendingMounts s ! k)) res
      else s)"

text \<open>
  \<open>find_enclosing_mount\<close> raises when the location has no mount, so the \<open>else\<close> branch
  of \<open>_unmountLocation\<close> is never taken: the \<open>catch\<close> is.
\<close>

definition unmountLocation :: "indicator \<Rightarrow> nat \<Rightarrow> indicator" where
  "unmountLocation s r =
     (let b = objs s r
      in case mounts (os s) (uri b) of
           None \<Rightarrow> console_error s (js ''Error unmounting '' @ name b @ js '':'')
         | Some root \<Rightarrow>
             (let s1 = (if createSymlink b then snd (removeSymlink s b) else s)
              in s1\<lparr>pendingUnmounts := pendingUnmounts s1 @ [r]\<rparr>))"

definition unmountCallback :: "indicator \<Rightarrow> nat \<Rightarrow> jsstring option \<Rightarrow> indicator" where
  "unmountCallback s r res =
     (let b = objs s r
      in case res of
           None \<Rightarrow>
             notify ((console_log s (js ''Successfully unmounted: '' @ name b))
                       \<lparr>mountedLocations := (mountedLocations s)(uri b := None)\<rparr>)
               (js ''Unmounted'') (name b) False
         | Some msg \<Rightarrow>
             notify (console_error s (js ''Failed to unmount '' @ name b @ js '':''))
               (js ''Unmount Failed'') (name b @ js '': '' @ msg) True)"

subsection \<open>Reconciliation and bulk actions\<close>

text \<open>The body of the \<open>forEach\<close> of \<open>_checkAndMountAll\<close>, with the two counters.\<close>

definition checkBookmark :: "bool \<Rightarrow> nat \<Rightarrow> indicator \<times> nat \<times> nat \<Rightarrow> indicator \<times> nat \<times> nat" where
  "checkBookmark isStartup r acc =
     (case acc of (s, totalN, mountedN) \<Rightarrow>
        (let b = objs s r
         in if enabled b
            then (if isLocationMounted s (uri b)
                  then ((if createSymlink b then snd (createSymlink_fn s b) else s),
                        totalN + 1, mountedN + 1)
                  else (mountLocation s r False isStartup, totalN + 1, mountedN))
            else ((if isLocationMounted s (uri b) \<and> createSymlink b
                   then snd (createSymlink_fn s b) else s),
                  totalN, mountedN)))"

definition checkAndMountAll :: "platform \<Rightarrow> indicator \<Rightarrow> bool \<Rightarrow> bool \<Rightarrow> indicator" where
  "checkAndMountAll rt s manual isStartup =
     (let s1 = loadBookmarks rt s
      in case fold (checkBookmark isStartup) (bookmarks s1) (s1, 0, 0) of
           (s2, totalN, mountedN) \<Rightarrow>
             if manual
             then notify s2 (js ''Mount Check'')
                    (js ''Checking '' @ digits totalN @ js '' locations, '' @ digits mountedN @
                     js '' already mounted'') False
             else s2)"

definition mountAllEnabled :: "indicator \<Rightarrow> indicator" where
  "mountAllEnabled s =
     (case fold (\<lambda>r (s', count). if \<not> isLocationMounted s' (uri (objs s' r))
                                   then (mountLocation s' r False False, count + 1)
                                   else (s', count))
             (filter (\<lambda>r. enabled (objs s r)) (bookmarks s)) (s, 0 :: nat) of
        (s1, count) \<Rightarrow>
          notify s1 (js ''Mounting All'')
            (js ''Attempting to mount '' @ digits count @ js '' locations'') False)"

definition unmountAll :: "indicator \<Rightarrow> indicator" where
  "unmountAll s =
     (case fold (\<lambda>r (s', count). if isLocationMounted s' (uri (objs s' r))
                                   then (unmountLocation s' r, count + 1)
                                   else (s', count))
             (bookmarks s) (s, 0 :: nat) of
        (s1, count) \<Rightarrow>
          notify s1 (js ''Unmounting All'')
            (js ''Unmounting '' @ digits count @ js '' locations'') False)"

subsection \<open>Timers, the menu switch, start and destruction\<close>

definition startPeriodicCheck :: "indicator \<Rightarrow> indicator" where
  "startPeriodicCheck s =
     (let s1 = (case timeoutId s of
                  None \<Rightarrow> s
                | Some i \<Rightarrow> (source_remove s i)\<lparr>timeoutId := None\<rparr>)
      in case timeout_add_seconds s1 (check_interval (settings s1) * 60) PeriodicCheck of
           (i, s2) \<Rightarrow> s2\<lparr>timeoutId := Some i\<rparr>)"

text \<open>What a timer's callback does when the main loop runs it as source \<open>i\<close>.\<close>

definition run_task :: "platform \<Rightarrow> indicator \<Rightarrow> nat \<Rightarrow> task \<Rightarrow> indicator" where
  "run_task rt s i t =
     (case t of
        StartupMount \<Rightarrow>
          (let s1 = checkAndMountAll rt s False True
           in s1\<lparr>timeoutIds := timeoutIds s1 - {i}\<rparr>)
      | StatusRefresh \<Rightarrow>
          (let s1 = updateBookmarksList (s\<lparr>startupMountInProgress := False\<rparr>)
           in s1\<lparr>timeoutIds := timeoutIds s1 - {i}\<rparr>)
      | SymlinkAfterMount r isStartup \<Rightarrow>
          (let b = objs s r;
               res = createSymlink_fn s b;
               s1 = snd res;
               s2 = (if \<not> isStartup
                     then notify s1 (js ''Mounted Successfully'')
                            (if createSymlink b \<and> fst res
                             then name b @ [32, 8594, 32] @ getSymlinkPath s1 b else name b)
                            False
                     else s1)
           in s2\<lparr>timeoutIds := timeoutIds s2 - {i}\<rparr>)
      | RetryMount r \<Rightarrow>
          (let b = objs s r;
               s1 = (if enabled b \<and> \<not> isLocationMounted s (uri b)
                     then mountLocation s r True (startupMountInProgress s) else s)
           in s1\<lparr>timeoutIds := timeoutIds s1 - {i}\<rparr>)
      | PeriodicCheck \<Rightarrow> checkAndMountAll rt s False False)"

text \<open>The main loop fires source \<open>i\<close>: the callback runs, and the source is dropped
  unless the callback is the periodic one (\<open>SOURCE_CONTINUE\<close>).\<close>

definition fire :: "platform \<Rightarrow> indicator \<Rightarrow> nat \<Rightarrow> indicator" where
  "fire rt s i =
     (case find (\<lambda>src. fst src = i) (sources s) of
        None \<Rightarrow> s
      | Some (j, secs, t) \<Rightarrow>
          (let s1 = run_task rt s i t
           in if t = PeriodicCheck then s1 else source_remove s1 i))"

text \<open>The \<open>toggled\<close> handler of the Auto Mount switch of the bookmark at \<open>index\<close>; out
  of range, the assignment raises and the handler ends.\<close>

definition toggleAutoMount :: "platform \<Rightarrow> indicator \<Rightarrow> nat \<Rightarrow> bool \<Rightarrow> indicator" where
  "toggleAutoMount rt s index state =
     (if index < length (bookmarks s)
      then saveBookmarkSettings rt
             (s\<lparr>objs := (objs s)(bookmarks s ! index :=
                                   (objs s (bookmarks s ! index))\<lparr>enabled := state\<rparr>)\<rparr>)
      else s)"

text \<open>The handler of \<open>changed::bookmark-settings\<close>.\<close>

definition bookmarkSettingsChanged :: "platform \<Rightarrow> indicator \<Rightarrow> indicator" where
  "bookmarkSettingsChanged rt s = updateBookmarksList (loadBookmarkSettings rt s)"

definition cleanupAllSymlinks :: "indicator \<Rightarrow> indicator" where
  "cleanupAllSymlinks s =
     (fold (\<lambda>r s'. if createSymlink (objs s' r) then snd (removeSymlink s' (objs s' r)) else s')
           (bookmarks s) s)\<lparr>symlinkPaths := Map.empty\<rparr>"

definition destroy :: "indicator \<Rightarrow> indicator" where
  "destroy s =
     (let s1 = (case timeoutId s of
                  None \<Rightarrow> s
                | Some i \<Rightarrow> (source_remove s i)\<lparr>timeoutId := None\<rparr>);
          s2 = s1\<lparr>sources := filter (\<lambda>src. fst src \<notin> timeoutIds s1) (sources s1),
                  timeoutIds := {}\<rparr>;
          s3 = cleanupAllSymlinks s2
      in s3\<lparr>source_destroyed := True\<rparr>)"

text \<open>The constructor \<open>_init\<close>.\<close>

definition init :: "platform \<Rightarrow> settings \<Rightarrow> os_state \<Rightarrow> indicator" where
  "init rt st os0 =
     (let s0 = \<lparr>settings = st, os = os0,
                objs = (\<lambda>r. \<lparr>uri = [], name = [], enabled = True, createSymlink = False,
                              symlinkPath = [], lastAttempt = 0, failCount = 0\<rparr>),
                next_obj = 0, bookmarks = [], mountedLocations = Map.empty,
                symlinkPaths = Map.empty, timeoutId = None, timeoutIds = {}, sources = [],
                startupMountInProgress = False, pendingMounts = [], pendingUnmounts = [],
                shown = [], console = [], source_destroyed = False\<rparr>;
          s1 = startPeriodicCheck (loadBookmarks rt s0);
          s2 = s1\<lparr>startupMountInProgress := True\<rparr>
      in case timeout_add_seconds s2 5 StartupMount of
           (startupTimeoutId, s3) \<Rightarrow>
             (case timeout_add_seconds (s3\<lparr>timeoutIds := insert startupTimeoutId (timeoutIds s3)\<rparr>)
                     10 StatusRefresh of
                (statusTimeoutId, s4) \<Rightarrow>
                  s4\<lparr>timeoutIds := insert statusTimeoutId (timeoutIds s4)\<rparr>))"

definition openSettings :: "indicator \<Rightarrow> bool \<Rightarrow> indicator" where
  "openSettings s opened =
     (if opened then s
      else notify s (js ''Settings'') (js ''Could not open preferences'') True)"

subsection \<open>The events the indicator reacts to\<close>

text \<open>
  Everything the indicator does after its construction is the run of one handler: a
  timer fires, the mount service answers a mount or an unmount request, the user picks a
  menu item or flips the Auto Mount switch of a bookmark, a settings key changes, or the
  extension is disabled. The menu items of a bookmark carry the bookmark object and its
  index as they were when the menu was built. Saving the per-bookmark settings writes the
  key \<open>bookmark-settings\<close>; the \<open>changed\<close> signal this raises is the event
  \<open>BookmarkSettingsChanged\<close>.
\<close>

datatype event =
  TimerFired nat
  | MountAnswered nat mount_result
  | UnmountAnswered nat "jsstring option"
  | CheckAllNow
  | MountAllEnabled
  | UnmountAll
  | MountNow nat
  | Unmount nat
  | AutoMountToggled nat bool
  | OpenSettings bool
  | BookmarkSettingsChanged
  | CheckIntervalChanged
  | Disabled

definition step :: "platform \<Rightarrow> indicator \<Rightarrow> event \<Rightarrow> indicator" where
  "step rt s ev =
     (case ev of
        TimerFired i \<Rightarrow> fire rt s i
      | MountAnswered k res \<Rightarrow> completeMount s k res
      | UnmountAnswered k res \<Rightarrow>
          (if k < length (pendingUnmounts s)
           then unmountCallback
                  (s\<lparr>pendingUnmounts := take k (pendingUnmounts s) @ drop (Suc k) (pendingUnmounts s)\<rparr>)
                  (pendingUnmounts s ! k) res
           else s)
      | CheckAllNow \<Rightarrow> checkAndMountAll rt s True False
      | MountAllEnabled \<Rightarrow> mountAllEnabled s
      | UnmountAll \<Rightarrow> unmountAll s
      | MountNow r \<Rightarrow> mountLocation s r False False
      | Unmount r \<Rightarrow> unmountLocation s r
      | AutoMountToggled index state \<Rightarrow> toggleAutoMount rt s index state
      | OpenSettings opened \<Rightarrow> openSettings s opened
      | BookmarkSettingsChanged \<Rightarrow> bookmarkSettingsChanged rt s
      | CheckIntervalChanged \<Rightarrow> startPeriodicCheck s
      | Disabled \<Rightarrow> destroy s)"

section \<open>Definitions for the statements\<close>

subsection \<open>Sanitising: the characters that end up as an underscore\<close>

definition becomes_underscore :: "nat \<Rightarrow> bool" where
  "becomes_underscore c \<longleftrightarrow> is_problematic c \<or> is_js_whitespace c \<or> c = 95"

text \<open>The first two passes of \<open>_sanitizeForFilename\<close>.\<close>

definition stage2 :: "jsstring \<Rightarrow> jsstring" where
  "stage2 xs = replace_runs is_js_whitespace 95 (map (\<lambda>c. if is_problematic c then 95 else c) xs)"

text \<open>No two underscores side by side.\<close>

fun no_double :: "jsstring \<Rightarrow> bool" where
  "no_double (x # y # zs) \<longleftrightarrow> \<not> (x = 95 \<and> y = 95) \<and> no_double (y # zs)"
| "no_double zs \<longleftrightarrow> True"

text \<open>
  Sanitising as the specification words it: each of the characters \<open>< > : " / \ | ? *\<close>
  and each run of white space is replaced with an underscore, and the underscores at the
  two ends are trimmed.
\<close>

definition spec_sanitize :: "jsstring \<Rightarrow> jsstring" where
  "spec_sanitize nm =
     rev (dropWhile (\<lambda>c. c = 95) (rev (dropWhile (\<lambda>c. c = 95)
       (replace_runs is_js_whitespace 95 (map (\<lambda>c. if is_problematic c then 95 else c) nm)))))"

subsection \<open>Symbolic links\<close>

text \<open>The path at which \<open>_removeSymlink\<close> looks: the tracked one, else the computed
  one.\<close>

definition link_path :: "indicator \<Rightarrow> bookmark \<Rightarrow> jsstring" where
  "link_path s b =
     (case symlinkPaths s (uri b) of
        None \<Rightarrow> getSymlinkPath s b
      | Some t \<Rightarrow> if t = [] then getSymlinkPath s b else t)"

fun is_symlink :: "fsentry \<Rightarrow> bool" where
  "is_symlink (Symlink t) \<longleftrightarrow> True"
| "is_symlink e \<longleftrightarrow> False"

text \<open>The second state differs from the first at most in the table of entries, the
  tracked links and the console.\<close>

definition fs_only :: "indicator \<Rightarrow> indicator \<Rightarrow> bool" where
  "fs_only s s' \<longleftrightarrow>
     s' = s\<lparr>os := (os s)\<lparr>entries := entries (os s')\<rparr>, symlinkPaths := symlinkPaths s',
            console := console s'\<rparr>"



subsection \<open>Notifications and timers\<close>

text \<open>A notification the settings let through.\<close>

definition allowed :: "settings \<Rightarrow> notification \<Rightarrow> bool" where
  "allowed st n \<longleftrightarrow>
     show_notifications st \<and>
     (if urgent n then show_error_notifications st else show_success_notifications st)"

text \<open>The second state has the three notification switches of the first, and the
  notifications of the first followed by notifications the settings let through.\<close>

definition gated :: "indicator \<Rightarrow> indicator \<Rightarrow> bool" where
  "gated s s' \<longleftrightarrow>
     show_notifications (settings s') = show_notifications (settings s) \<and>
     show_success_notifications (settings s') = show_success_notifications (settings s) \<and>
     show_error_notifications (settings s') = show_error_notifications (settings s) \<and>
     (\<exists>ns. shown s' = shown s @ ns \<and> list_all (allowed (settings s)) ns)"

text \<open>Every pending timer is the periodic one or a tracked one.\<close>

definition timers_tracked :: "indicator \<Rightarrow> bool" where
  "timers_tracked s \<longleftrightarrow>
     list_all (\<lambda>src. fst src \<in> timeoutIds s \<or> timeoutId s = Some (fst src)) (sources s)"

subsection \<open>States for the examples\<close>

definition demo_os :: os_state where
  "demo_os =
     \<lparr>home_dir = js ''/home/u'', clock = 1000, entries = Map.empty, locked = {},
      mounts = [js ''smb://server/share'' \<mapsto> Some (js ''/run/user/1000/gvfs/share'')],
      mount_throws = Map.empty, bookmarks_file = Contents (js ''smb://server/share Share'')\<rparr>"

definition demo_bookmark :: bookmark where
  "demo_bookmark =
     \<lparr>uri = js ''smb://server/share'', name = js ''My Share: /data'', enabled = True,
      createSymlink = True, symlinkPath = [], lastAttempt = 0, failCount = 0\<rparr>"

definition demo_state :: indicator where
  "demo_state =
     \<lparr>settings = default_settings, os = demo_os, objs = (\<lambda>r. demo_bookmark), next_obj = 1,
      bookmarks = [0], mountedLocations = Map.empty, symlinkPaths = Map.empty,
      timeoutId = None, timeoutIds = {}, sources = [], startupMountInProgress = False,
      pendingMounts = [], pendingUnmounts = [], shown = [], console = [],
      source_destroyed = False\<rparr>"



text \<open>The example bookmark with its link in place and tracked, beside a file of the
  user's; and the same with a regular file where the link would be.\<close>

definition linked_state :: indicator where
  "linked_state =
     demo_state\<lparr>os := demo_os\<lparr>entries :=
                [js ''/home/u/NetworkMounts'' \<mapsto> Directory,
                 js ''/home/u/NetworkMounts/My_Share_data'' \<mapsto>
                   Symlink (js ''/run/user/1000/gvfs/share''),
                 js ''/home/u/notes.txt'' \<mapsto> RegularFile]\<rparr>,
        symlinkPaths := [js ''smb://server/share'' \<mapsto> js ''/home/u/NetworkMounts/My_Share_data'']\<rparr>"

text \<open>The first of the two, with changes at the path of the link refused (a directory
  that cannot be written).\<close>

definition refused_state :: indicator where
  "refused_state =
     linked_state\<lparr>os := (os linked_state)\<lparr>locked := {js ''/home/u/NetworkMounts/My_Share_data''}\<rparr>\<rparr>"

definition blocked_state :: indicator where
  "blocked_state =
     demo_state\<lparr>os := demo_os\<lparr>entries :=
                [js ''/home/u/NetworkMounts'' \<mapsto> Directory,
                 js ''/home/u/NetworkMounts/My_Share_data'' \<mapsto> RegularFile]\<rparr>\<rparr>"

text \<open>A platform on which the persisted settings read as: no symbolic link for the
  example bookmark.\<close>

definition unticked_platform :: platform where
  "unticked_platform =
     \<lparr>JSON_parse = (\<lambda>t. Some (JObj [(js ''smb://server/share'',
                        JObj [(js ''enabled'', JBool True), (js ''createSymlink'', JBool False),
                              (js ''symlinkPath'', JStr [])])])),
      JSON_stringify = (\<lambda>v. []), Uri_parse = (\<lambda>u. None)\<rparr>"

text \<open>
  A platform for the examples. Its \<open>JSON.stringify\<close> is the real one on values without
  numbers that are not integers and strings without lone surrogates; its \<open>JSON.parse\<close>
  agrees with the real one on the strings the examples hold (it reads \<open>{}\<close> and rejects
  the rest); its \<open>GLib.Uri.parse\<close> rejects every URI.
\<close>

definition hex_digit :: "nat \<Rightarrow> nat" where
  "hex_digit d = (if d < 10 then 48 + d else 87 + d)"

definition json_escape :: "nat \<Rightarrow> jsstring" where
  "json_escape c =
     (if c = 34 then [92, 34] else if c = 92 then [92, 92]
      else if c = 8 then [92, 98] else if c = 9 then [92, 116] else if c = 10 then [92, 110]
      else if c = 12 then [92, 102] else if c = 13 then [92, 114]
      else if c < 32 then [92, 117, 48, 48, hex_digit (c div 16), hex_digit (c mod 16)]
      else [c])"

definition json_quote :: "jsstring \<Rightarrow> jsstring" where
  "json_quote t = 34 # concat (map json_escape t) @ [34]"

fun demo_stringify :: "json \<Rightarrow> jsstring" where
  "demo_stringify JNull = js ''null''"
| "demo_stringify (JBool b) = (if b then js ''true'' else js ''false'')"
| "demo_stringify (JNum n) = int_to_string n"
| "demo_stringify (JStr t) = json_quote t"
| "demo_stringify (JArr xs) = js ''['' @ js_join (js '','') (map demo_stringify xs) @ js '']''"
| "demo_stringify (JObj kvs) =
     js ''{'' @ js_join (js '','') (map (\<lambda>(k, v). json_quote k @ js '':'' @ demo_stringify v) kvs) @
     js ''}''"

definition demo_platform :: platform where
  "demo_platform =
     \<lparr>JSON_parse = (\<lambda>t. if t = js ''{}'' then Some (JObj []) else None),
      JSON_stringify = demo_stringify, Uri_parse = (\<lambda>u. None)\<rparr>"

definition offline_state :: indicator where
  "offline_state = demo_state\<lparr>os := demo_os\<lparr>mounts := Map.empty\<rparr>\<rparr>"


definition broken_state :: indicator where
  "broken_state =
     demo_state\<lparr>settings := default_settings\<lparr>bookmark_settings := js ''{not json''\<rparr>,
                 objs := (\<lambda>r. demo_bookmark\<lparr>enabled := False\<rparr>)\<rparr>"

definition retrying_state :: indicator where
  "retrying_state =
     offline_state\<lparr>objs := (\<lambda>r. demo_bookmark\<lparr>failCount := 1, lastAttempt := 1000\<rparr>),
                    sources := [(1, 30, RetryMount 0)], timeoutIds := {1}\<rparr>"

section \<open>What the symbolic-link operations leave alone\<close>

lemma fs_only_refl: "fs_only s s"
  by (simp add: fs_only_def)

lemma fs_only_fields:
  assumes "fs_only s s'"
  shows "settings s' = settings s" and "objs s' = objs s" and "bookmarks s' = bookmarks s"
    and "sources s' = sources s" and "timeoutIds s' = timeoutIds s"
    and "timeoutId s' = timeoutId s" and "pendingMounts s' = pendingMounts s"
    and "pendingUnmounts s' = pendingUnmounts s" and "shown s' = shown s"
    and "next_obj s' = next_obj s" and "mounts (os s') = mounts (os s)"
    and "locked (os s') = locked (os s)" and "home_dir (os s') = home_dir (os s)"
    and "mount_throws (os s') = mount_throws (os s)" and "clock (os s') = clock (os s)"
    and "startupMountInProgress s' = startupMountInProgress s"
    and "mountedLocations s' = mountedLocations s"
proof -
  have e: "s' = s\<lparr>os := (os s)\<lparr>entries := entries (os s')\<rparr>, symlinkPaths := symlinkPaths s',
            console := console s'\<rparr>"
    using assms by (simp add: fs_only_def)
  show "settings s' = settings s" by (subst e) simp
  show "objs s' = objs s" by (subst e) simp
  show "bookmarks s' = bookmarks s" by (subst e) simp
  show "sources s' = sources s" by (subst e) simp
  show "timeoutIds s' = timeoutIds s" by (subst e) simp
  show "timeoutId s' = timeoutId s" by (subst e) simp
  show "pendingMounts s' = pendingMounts s" by (subst e) simp
  show "pendingUnmounts s' = pendingUnmounts s" by (subst e) simp
  show "shown s' = shown s" by (subst e) simp
  show "next_obj s' = next_obj s" by (subst e) simp
  show "mounts (os s') = mounts (os s)" by (subst e) simp
  show "locked (os s') = locked (os s)" by (subst e) simp
  show "home_dir (os s') = home_dir (os s)" by (subst e) simp
  show "mount_throws (os s') = mount_throws (os s)" by (subst e) simp
  show "clock (os s') = clock (os s)" by (subst e) simp
  show "startupMountInProgress s' = startupMountInProgress s" by (subst e) simp
  show "mountedLocations s' = mountedLocations s" by (subst e) simp
qed

lemma fs_onlyI:
  "s' = s\<lparr>os := (os s)\<lparr>entries := es\<rparr>, symlinkPaths := sp, console := co\<rparr> \<Longrightarrow> fs_only s s'"
  by (simp add: fs_only_def)

lemma fs_only_trans:
  assumes "fs_only s s'" and "fs_only s' s''"
  shows "fs_only s s''"
proof -
  define es sp co where "es = entries (os s')" and "sp = symlinkPaths s'" and "co = console s'"
  have e1: "s' = s\<lparr>os := (os s)\<lparr>entries := es\<rparr>, symlinkPaths := sp, console := co\<rparr>"
    using assms(1) by (simp add: fs_only_def es_def sp_def co_def)
  define es' sp' co' where "es' = entries (os s'')" and "sp' = symlinkPaths s''"
    and "co' = console s''"
  have "s'' = s'\<lparr>os := (os s')\<lparr>entries := es'\<rparr>, symlinkPaths := sp', console := co'\<rparr>"
    using assms(2) by (simp add: fs_only_def es'_def sp'_def co'_def)
  then have "s'' = s\<lparr>os := (os s)\<lparr>entries := es'\<rparr>, symlinkPaths := sp', console := co'\<rparr>"
    by (simp add: e1)
  then show ?thesis by (rule fs_onlyI)
qed

lemma fs_only_removeSymlink: "fs_only s (snd (removeSymlink s b))"
  by (auto simp: fs_only_def removeSymlink_def Let_def delete_file_def console_log_def
      console_error_def split: option.splits fsentry.splits sum.splits)

lemma fs_only_console_error: "fs_only s (console_error s m)"
  by (simp add: fs_only_def console_error_def)

lemma fs_only_console_log: "fs_only s (console_log s m)"
  by (simp add: fs_only_def console_log_def)

lemma fs_only_getGvfs: "fs_only s (snd (getGvfsMountPath s u))"
  by (auto simp: getGvfsMountPath_def fs_only_console_error fs_only_refl split: option.splits)

lemma fs_only_mkdir:
  "fs_only s (case make_directory_with_parents (os s) d of Inr os' \<Rightarrow> s\<lparr>os := os'\<rparr> | Inl e \<Rightarrow> s)"
  by (simp add: make_directory_with_parents_def fs_only_def)

lemma fs_only_link:
  "make_symbolic_link (os s) p g = Inr os' \<Longrightarrow>
   fs_only s (console_log (s\<lparr>os := os', symlinkPaths := sp\<rparr>) m)"
  by (auto simp: make_symbolic_link_def fs_only_def console_log_def split: if_splits)

lemma fs_only_createSymlink: "fs_only s (snd (createSymlink_fn s b))"
proof (cases "createSymlink b")
  case False
  then show ?thesis by (simp add: createSymlink_fn_def fs_only_refl)
next
  case True
  obtain gv s1 where g: "getGvfsMountPath s (uri b) = (gv, s1)" by force
  have f1: "fs_only s s1" using fs_only_getGvfs [of s "uri b"] g by simp
  show ?thesis
  proof (cases "case gv of None \<Rightarrow> None | Some g \<Rightarrow> if g = [] then None else Some g")
    case None
    then show ?thesis using True g f1
      by (auto simp: createSymlink_fn_def intro: fs_only_trans fs_only_console_error)
  next
    case (Some gvfsPath)
    define d where "d = path_get_dirname (getSymlinkPath s1 b)"
    define s2 where "s2 = (case make_directory_with_parents (os s1) d of Inr os' \<Rightarrow> s1\<lparr>os := os'\<rparr> | Inl e \<Rightarrow> s1)"
    define s3 where "s3 = snd (removeSymlink s2 b)"
    have f3: "fs_only s s3"
      using f1 fs_only_mkdir [of s1 d] fs_only_removeSymlink [of s2 b]
      unfolding s2_def s3_def by (blast intro: fs_only_trans)
    show ?thesis
    proof (cases "make_directory_with_parents (os s1) d = Inl Failed")
      case t: True
      then show ?thesis using True g Some f1
        by (auto simp: createSymlink_fn_def d_def intro: fs_only_trans fs_only_console_error)
    next
      case False
      have r: "snd (createSymlink_fn s b) =
          (case make_symbolic_link (os s3) (getSymlinkPath s1 b) gvfsPath of
             Inl e \<Rightarrow> console_error s3 (js ''Failed to create symlink for '' @ name b @ js '':'')
           | Inr os' \<Rightarrow> console_log
                (s3\<lparr>os := os', symlinkPaths := (symlinkPaths s3)(uri b \<mapsto> getSymlinkPath s1 b)\<rparr>)
                (js ''Created symlink: '' @ getSymlinkPath s1 b @ [32, 8594, 32] @ gvfsPath))"
        using True g Some False
        by (auto simp: createSymlink_fn_def d_def s2_def s3_def Let_def
            split: sum.splits io_error.splits)
      show ?thesis
        unfolding r using f3
        by (auto split: sum.splits intro: fs_only_trans fs_only_console_error fs_only_link)
    qed
  qed
qed

lemma removeSymlink_cases:
  "removeSymlink s b =
     (case entries (os s) (link_path s b) of
        Some (Symlink t) \<Rightarrow>
          if link_path s b \<in> locked (os s)
          then (False, console_error s (js ''Error removing symlink:''))
          else (True, (console_log (s\<lparr>os := (os s)\<lparr>entries := (entries (os s))(link_path s b := None)\<rparr>\<rparr>)
                         (js ''Removed symlink: '' @ link_path s b))
                      \<lparr>symlinkPaths := (symlinkPaths s)(uri b := None)\<rparr>)
      | _ \<Rightarrow> (True, s\<lparr>symlinkPaths := (symlinkPaths s)(uri b := None)\<rparr>))"
  by (auto simp: removeSymlink_def link_path_def Let_def delete_file_def console_log_def
      split: option.splits fsentry.splits)





lemma fs_only_fold:
  assumes "\<And>r s. fs_only s (f r s)"
  shows "fs_only s (fold f rs s)"
proof (induction rs arbitrary: s)
  case Nil
  then show ?case by (simp add: fs_only_refl)
next
  case (Cons r rs)
  show ?case using assms [of s r] Cons [of "f r s"] by (auto intro: fs_only_trans)
qed

lemma fs_only_cleanup_loop:
  "fs_only s (fold (\<lambda>r s'. if createSymlink (objs s' r) then snd (removeSymlink s' (objs s' r)) else s')
           rs s)"
  by (rule fs_only_fold) (simp add: fs_only_refl fs_only_removeSymlink)

lemma fs_only_updateBookmarksList: "fs_only s (updateBookmarksList s)"
  unfolding updateBookmarksList_def
  by (rule fs_only_fold) (simp add: fs_only_refl fs_only_createSymlink)

section \<open>Timers\<close>

lemma fold_max_bounds:
  "(a::nat) \<le> fold max xs a \<and> (\<forall>x\<in>set xs. x \<le> fold max xs a)"
proof (induction xs arbitrary: a)
  case Nil
  then show ?case by simp
next
  case (Cons y ys)
  have "max y a \<le> fold max ys (max y a)" using Cons by blast
  then show ?case using Cons [of "max y a"] by auto
qed

lemma new_source_id_fresh: "new_source_id srcs \<notin> fst ` set srcs"
proof
  assume "new_source_id srcs \<in> fst ` set srcs"
  then have "new_source_id srcs \<in> set (map fst srcs)" by simp
  then have "new_source_id srcs \<le> fold max (map fst srcs) 0"
    using fold_max_bounds [of 0 "map fst srcs"] by blast
  then show False by (simp add: new_source_id_def)
qed

section \<open>Notifications and the notification switches\<close>




lemma gated_same: "settings s' = settings s \<Longrightarrow> shown s' = shown s \<Longrightarrow> gated s s'"
  by (simp add: gated_def)







lemma gated_console_log: "gated s (console_log s m)"
  by (simp add: gated_same console_log_def)























lemma toggle_keeps_flags:
  "show_notifications (settings (toggleAutoMount rt s index state)) = show_notifications (settings s) \<and>
   show_success_notifications (settings (toggleAutoMount rt s index state)) =
     show_success_notifications (settings s) \<and>
   show_error_notifications (settings (toggleAutoMount rt s index state)) =
     show_error_notifications (settings s) \<and>
   shown (toggleAutoMount rt s index state) = shown s"
  by (simp add: toggleAutoMount_def saveBookmarkSettings_def Let_def)








section \<open>The path of the symbolic link\<close>

lemma replace_runs_append:
  "rest = [] \<or> \<not> P (hd rest) \<Longrightarrow>
   replace_runs P r (xs @ rest) = replace_runs P r xs @ replace_runs P r rest"
proof (induction P r xs rule: replace_runs.induct)
  case (1 P r)
  then show ?case by simp
next
  case (2 P r c cs)
  show ?case
  proof (cases "P c")
    case True
    have d: "dropWhile P (cs @ rest) = dropWhile P cs @ rest"
      using "2.prems" by (induction cs) (auto simp: dropWhile_eq_self_iff)
    show ?thesis using True 2 d by simp
  next
    case False
    then show ?thesis using 2 by simp
  qed
qed

lemma ws_not_problematic: "is_js_whitespace c \<Longrightarrow> \<not> is_problematic c"
  by (auto simp: is_js_whitespace_def is_problematic_def)

lemma us_not_ws: "\<not> is_js_whitespace 95"
  by (simp add: is_js_whitespace_def)

lemma stage2_Nil: "stage2 [] = []"
  by (simp add: stage2_def)

lemma stage2_plain: "\<not> becomes_underscore c \<Longrightarrow> stage2 (c # cs) = c # stage2 cs"
  by (simp add: stage2_def becomes_underscore_def)

lemma stage2_mapped:
  "is_problematic c \<or> c = 95 \<Longrightarrow> stage2 (c # cs) = 95 # stage2 cs"
  by (auto simp: stage2_def us_not_ws)

lemma dropWhile_ws_map:
  "dropWhile is_js_whitespace (map (\<lambda>c. if is_problematic c then 95 else c) cs) =
   map (\<lambda>c. if is_problematic c then 95 else c) (dropWhile is_js_whitespace cs)"
  by (induction cs) (auto simp: us_not_ws ws_not_problematic)

lemma stage2_ws:
  "is_js_whitespace c \<Longrightarrow> stage2 (c # cs) = 95 # stage2 (dropWhile is_js_whitespace cs)"
  by (simp add: stage2_def ws_not_problematic dropWhile_ws_map)

lemma dropWhile_class_ws:
  "dropWhile becomes_underscore (dropWhile is_js_whitespace cs) = dropWhile becomes_underscore cs"
  by (induction cs) (auto simp: becomes_underscore_def)

lemma stage2_drop:
  "dropWhile (\<lambda>c. c = 95) (stage2 xs) = stage2 (dropWhile becomes_underscore xs)"
proof (induction xs rule: length_induct)
  case (1 xs)
  show ?case
  proof (cases xs)
    case Nil
    then show ?thesis by (simp add: stage2_Nil)
  next
    case (Cons c cs)
    consider "\<not> becomes_underscore c" | "is_problematic c \<or> c = 95" | "is_js_whitespace c"
      by (auto simp: becomes_underscore_def)
    then show ?thesis
    proof cases
      case 1
      then have "c \<noteq> 95" by (auto simp: becomes_underscore_def)
      then show ?thesis using 1 Cons by (simp add: stage2_plain)
    next
      case 2
      then have b: "becomes_underscore c" by (auto simp: becomes_underscore_def)
      have "length cs < length xs" using Cons by simp
      then have "dropWhile (\<lambda>c. c = 95) (stage2 cs) = stage2 (dropWhile becomes_underscore cs)"
        using "1.IH" by blast
      then show ?thesis using 2 b Cons by (simp add: stage2_mapped)
    next
      case 3
      then have b: "becomes_underscore c" by (auto simp: becomes_underscore_def)
      have "length (dropWhile is_js_whitespace cs) < length xs"
        using Cons by (simp add: le_imp_less_Suc length_dropWhile_le)
      then have "dropWhile (\<lambda>c. c = 95) (stage2 (dropWhile is_js_whitespace cs)) =
                 stage2 (dropWhile becomes_underscore (dropWhile is_js_whitespace cs))"
        using "1.IH" by blast
      then show ?thesis using 3 b Cons by (simp add: stage2_ws dropWhile_class_ws)
    qed
  qed
qed

lemma stage2_head:
  "becomes_underscore c \<Longrightarrow> \<exists>rest. stage2 (c # cs) = 95 # rest"
  by (auto simp: becomes_underscore_def stage2_mapped stage2_ws)

lemma passes_as_one:
  "replace_runs (\<lambda>c. c = 95) 95 (stage2 xs) = replace_runs becomes_underscore 95 xs"
proof (induction xs rule: length_induct)
  case (1 xs)
  show ?case
  proof (cases xs)
    case Nil
    then show ?thesis by (simp add: stage2_Nil)
  next
    case (Cons c cs)
    show ?thesis
    proof (cases "becomes_underscore c")
      case False
      then have "c \<noteq> 95" by (auto simp: becomes_underscore_def)
      moreover have "replace_runs (\<lambda>c. c = 95) 95 (stage2 cs) = replace_runs becomes_underscore 95 cs"
        using "1.IH" Cons by simp
      ultimately show ?thesis using False Cons by (simp add: stage2_plain)
    next
      case True
      then obtain rest where r: "stage2 (c # cs) = 95 # rest"
        using stage2_head by blast
      have "dropWhile (\<lambda>c. c = 95) rest = dropWhile (\<lambda>c. c = 95) (stage2 (c # cs))"
        using r by simp
      also have "\<dots> = stage2 (dropWhile becomes_underscore cs)"
        using True by (simp add: stage2_drop)
      finally have d: "dropWhile (\<lambda>c. c = 95) rest = stage2 (dropWhile becomes_underscore cs)" .
      have "length (dropWhile becomes_underscore cs) < length xs"
        using Cons by (simp add: le_imp_less_Suc length_dropWhile_le)
      then have "replace_runs (\<lambda>c. c = 95) 95 (stage2 (dropWhile becomes_underscore cs)) =
                 replace_runs becomes_underscore 95 (dropWhile becomes_underscore cs)"
        using "1.IH" by blast
      then show ?thesis using True Cons r d by simp
    qed
  qed
qed

lemma sanitize_one_pass:
  "sanitizeForFilename nm = strip_edge_underscores (replace_runs becomes_underscore 95 nm)"
  using passes_as_one [of nm] by (simp add: sanitizeForFilename_def stage2_def)

lemma runs_head:
  "replace_runs becomes_underscore 95 (dropWhile becomes_underscore cs) = [] \<or>
   hd (replace_runs becomes_underscore 95 (dropWhile becomes_underscore cs)) \<noteq> 95"
proof (cases "dropWhile becomes_underscore cs")
  case Nil
  show ?thesis unfolding Nil by simp
next
  case (Cons h t)
  then have "\<not> becomes_underscore h"
    by (metis hd_dropWhile list.sel(1) list.distinct(1))
  then show ?thesis using Cons by (auto simp: becomes_underscore_def)
qed

lemma no_double_Cons: "ys = [] \<or> hd ys \<noteq> 95 \<or> x \<noteq> 95 \<Longrightarrow> no_double ys \<Longrightarrow> no_double (x # ys)"
  by (cases ys) auto

lemma no_double_runs: "no_double (replace_runs becomes_underscore 95 xs)"
proof (induction becomes_underscore "95::nat" xs rule: replace_runs.induct)
  case 1
  then show ?case by simp
next
  case (2 c cs)
  show ?case
  proof (cases "becomes_underscore c")
    case True
    then show ?thesis using 2 runs_head [of cs] by (auto intro: no_double_Cons)
  next
    case False
    then have "c \<noteq> 95" by (auto simp: becomes_underscore_def)
    then show ?thesis using False 2 by (auto intro: no_double_Cons)
  qed
qed

lemma runs_clean:
  "c \<in> set (replace_runs becomes_underscore 95 xs) \<Longrightarrow> \<not> is_problematic c \<and> \<not> is_js_whitespace c"
proof (induction becomes_underscore "95::nat" xs rule: replace_runs.induct)
  case 1
  then show ?case by simp
next
  case (2 d ds)
  then show ?case
    by (auto simp: becomes_underscore_def is_problematic_def us_not_ws split: if_splits)
qed

lemma no_double_tl: "no_double (x # ys) \<Longrightarrow> no_double ys"
  by (cases ys) auto

lemma no_double_end: "no_double (ys @ [a, b]) \<Longrightarrow> \<not> (a = 95 \<and> b = 95)"
  by (induction ys rule: no_double.induct) auto

lemma strip_set: "set (strip_edge_underscores ys) \<subseteq> set ys"
  by (auto simp: strip_edge_underscores_def Let_def split: list.splits if_splits dest: in_set_butlastD)

lemma no_double_hd: "no_double (95 # ys) \<Longrightarrow> ys = [] \<or> hd ys \<noteq> 95"
  by (cases ys) auto

lemma strip_back_clean:
  assumes "no_double s1" and "s1 = [] \<or> hd s1 \<noteq> 95"
  shows "(if s1 \<noteq> [] \<and> last s1 = 95 then butlast s1 else s1) = [] \<or>
         (hd (if s1 \<noteq> [] \<and> last s1 = 95 then butlast s1 else s1) \<noteq> 95 \<and>
          last (if s1 \<noteq> [] \<and> last s1 = 95 then butlast s1 else s1) \<noteq> 95)"
proof (cases "s1 \<noteq> [] \<and> last s1 = 95")
  case False
  then show ?thesis using assms(2) by auto
next
  case True
  show ?thesis
  proof (cases "butlast s1 = []")
    case e: True
    then show ?thesis using True by simp
  next
    case False
    then obtain zs a where z: "butlast s1 = zs @ [a]"
      by (metis append_butlast_last_id)
    have s: "s1 = zs @ [a, 95]"
      using True z by (metis append.assoc append_Cons append_Nil append_butlast_last_id)
    then have "a \<noteq> 95" using assms(1) no_double_end by blast
    moreover have "hd (zs @ [a]) \<noteq> 95"
      using assms(2) s \<open>a \<noteq> 95\<close> by (cases zs) auto
    ultimately show ?thesis using True z by simp
  qed
qed

lemma strip_edges_clean:
  assumes "no_double ys"
  shows "strip_edge_underscores ys = [] \<or>
         (hd (strip_edge_underscores ys) \<noteq> 95 \<and> last (strip_edge_underscores ys) \<noteq> 95)"
proof -
  define s1 where "s1 = (case ys of [] \<Rightarrow> [] | c # cs \<Rightarrow> if c = 95 then cs else ys)"
  have n: "no_double s1"
    using assms by (auto simp: s1_def split: list.splits dest: no_double_tl)
  have h: "s1 = [] \<or> hd s1 \<noteq> 95"
    using assms by (auto simp: s1_def split: list.splits dest: no_double_hd)
  have "strip_edge_underscores ys = (if s1 \<noteq> [] \<and> last s1 = 95 then butlast s1 else s1)"
    by (simp add: strip_edge_underscores_def s1_def)
  then show ?thesis using strip_back_clean [OF n h] by simp
qed

text \<open>
  C4, amended. The path is the base directory (the setting \<open>custom-mount-base\<close>, or
  \<open>NetworkMounts\<close> under the home directory when the setting is empty), a slash, and the
  leaf: the bookmark's \<open>symlinkPath\<close> when it is not empty, else the sanitised name.
  Sanitising replaces every maximal run of characters that are one of
  \<open>< > : " / \ | ? *\<close>, white space or an underscore by one underscore, and then removes
  the underscore at either end. The result holds none of the nine characters and no white
  space, and neither starts nor ends with an underscore; the name \<open>My Share: /data\<close> gives
  \<open>My_Share_data\<close>.
\<close>

theorem symlink_path_leaf:
  "getSymlinkPath s b =
     (if custom_mount_base (settings s) = [] then home_dir (os s) @ js ''/NetworkMounts''
      else custom_mount_base (settings s)) @ js ''/'' @
     (if symlinkPath b \<noteq> [] then symlinkPath b else sanitizeForFilename (name b)) \<and>
   sanitizeForFilename nm = strip_edge_underscores (replace_runs becomes_underscore 95 nm) \<and>
   (\<forall>c\<in>set (sanitizeForFilename nm). \<not> is_problematic c \<and> \<not> is_js_whitespace c) \<and>
   (sanitizeForFilename nm = [] \<or>
      (hd (sanitizeForFilename nm) \<noteq> 95 \<and> last (sanitizeForFilename nm) \<noteq> 95)) \<and>
   sanitizeForFilename (js ''My Share: /data'') = js ''My_Share_data''"
proof -
  have p: "getSymlinkPath s b =
     (if custom_mount_base (settings s) = [] then home_dir (os s) @ js ''/NetworkMounts''
      else custom_mount_base (settings s)) @ js ''/'' @
     (if symlinkPath b \<noteq> [] then symlinkPath b else sanitizeForFilename (name b))"
    by (simp add: getSymlinkPath_def Let_def)
  have c: "\<forall>c\<in>set (sanitizeForFilename nm). \<not> is_problematic c \<and> \<not> is_js_whitespace c"
    using strip_set [of "replace_runs becomes_underscore 95 nm"] runs_clean [of _ nm]
    by (auto simp: sanitize_one_pass)
  have e: "sanitizeForFilename nm = [] \<or>
      (hd (sanitizeForFilename nm) \<noteq> 95 \<and> last (sanitizeForFilename nm) \<noteq> 95)"
    using strip_edges_clean [OF no_double_runs [of nm]] by (simp add: sanitize_one_pass)
  have x: "sanitizeForFilename (js ''My Share: /data'') = js ''My_Share_data''"
    by (simp add: sanitizeForFilename_def strip_edge_underscores_def is_problematic_def
        is_js_whitespace_def)
  show ?thesis using p c e x sanitize_one_pass [of nm] by blast
qed

theorem symlink_path_leaf_witness:
  "getSymlinkPath demo_state demo_bookmark = js ''/home/u/NetworkMounts/My_Share_data'' \<and>
   sanitizeForFilename (js ''_a:: b_'') = js ''a_b'' \<and>
   hd (sanitizeForFilename (js ''_a:: b_'')) \<noteq> 95"
  using symlink_path_leaf [of demo_state demo_bookmark "js ''_a:: b_''"]
  by (simp add: demo_state_def demo_bookmark_def demo_os_def default_settings_def
      sanitizeForFilename_def strip_edge_underscores_def is_problematic_def
      is_js_whitespace_def becomes_underscore_def)

text \<open>
  C4 as it is worded fails on a name with two underscores side by side: none of its
  characters is one of the nine or white space, and neither end is an underscore, so the
  wording leaves it as it is, while the program collapses the two underscores. Read
  character by character, the wording also misses its own example.
\<close>

theorem sanitize_collapses_underscores_counterexample:
  "sanitizeForFilename (js ''a__b'') = js ''a_b'' \<and>
   spec_sanitize (js ''a__b'') = js ''a__b'' \<and>
   spec_sanitize (js ''My Share: /data'') = js ''My_Share___data''"
  by (simp add: sanitizeForFilename_def spec_sanitize_def strip_edge_underscores_def
      is_problematic_def is_js_whitespace_def)

section \<open>Failed and successful mounts\<close>



text \<open>Four failures in a row under the default limit of 3: the count goes 1, 2, 3, 4,
  three retries are scheduled, and the fourth failure is the terminal one.\<close>

lemma four_failures:
  "failCount (objs (handleMountFailure (handleMountFailure (handleMountFailure
      (handleMountFailure demo_state 0 e) 0 e) 0 e) 0 e) 0) = 4 \<and>
   map (\<lambda>src. snd (snd src)) (sources (handleMountFailure (handleMountFailure
      (handleMountFailure (handleMountFailure demo_state 0 e) 0 e) 0 e) 0 e)) =
     [RetryMount 0, RetryMount 0, RetryMount 0] \<and>
   map title (shown (handleMountFailure (handleMountFailure (handleMountFailure
      (handleMountFailure demo_state 0 e) 0 e) 0 e) 0 e)) =
     [js ''Mount Failed - Retrying'', js ''Mount Failed - Retrying'',
      js ''Mount Failed - Retrying'', js ''Mount Failed'']"
  by (simp add: handleMountFailure_def scheduleRetry_def timeout_add_seconds_def notify_def
      Let_def demo_state_def demo_bookmark_def default_settings_def)

text \<open>
  C7. The callback of a mount request that succeeded sets the bookmark's \<open>failCount\<close> to
  0, whatever it was, and records the time.
\<close>

theorem successful_mount_resets_failCount:
  "failCount (objs (mountCallback s r isStartup MountOk) r) = 0 \<and>
   lastAttempt (objs (mountCallback s r isStartup MountOk) r) = clock (os s) \<and>
   mountedLocations (mountCallback s r isStartup MountOk) (uri (objs s r)) = Some (clock (os s))"
  by (simp add: mountCallback_def timeout_add_seconds_def console_log_def Let_def)

theorem successful_mount_resets_failCount_witness:
  "failCount (objs retrying_state 0) = 1 \<and>
   failCount (objs (mountCallback retrying_state 0 False MountOk) 0) = 0"
  using successful_mount_resets_failCount [of retrying_state 0 False]
  by (simp add: retrying_state_def demo_bookmark_def)

text \<open>
  C2, amended. Scheduling a retry adds one pending timer for the bookmark, under an
  identifier no pending timer has, and tracks it; every timer that was pending stays, so
  the bookmark has one more pending retry than before.
\<close>

theorem schedule_retry_adds_task:
  "sources (scheduleRetry s r d) = sources s @ [(new_source_id (sources s), d, RetryMount r)] \<and>
   new_source_id (sources s) \<notin> fst ` set (sources s) \<and>
   timeoutIds (scheduleRetry s r d) = insert (new_source_id (sources s)) (timeoutIds s) \<and>
   length (filter (\<lambda>src. snd (snd src) = RetryMount r) (sources (scheduleRetry s r d))) =
     Suc (length (filter (\<lambda>src. snd (snd src) = RetryMount r) (sources s)))"
  using new_source_id_fresh [of "sources s"]
  by (simp add: scheduleRetry_def timeout_add_seconds_def Let_def)

theorem schedule_retry_adds_task_witness:
  "sources (scheduleRetry retrying_state 0 30) = [(1, 30, RetryMount 0), (2, 30, RetryMount 0)] \<and>
   timeoutIds (scheduleRetry retrying_state 0 30) = {2, 1}"
proof -
  have s: "sources retrying_state = [(1, 30, RetryMount 0)]"
    and t: "timeoutIds retrying_state = {1}"
    by (simp_all add: retrying_state_def)
  show ?thesis
    using schedule_retry_adds_task [of retrying_state 0 30]
    by (simp add: s t new_source_id_def numeral_2_eq_2)
qed

text \<open>
  C2 as it is worded fails: a second retry scheduled for the same bookmark while the
  first is pending leaves two pending retries, and so do two failed attempts in a row.
\<close>

theorem two_pending_retries_counterexample:
  "map (\<lambda>src. snd (snd src)) (sources (scheduleRetry (scheduleRetry demo_state 0 30) 0 30)) =
     [RetryMount 0, RetryMount 0] \<and>
   map (\<lambda>src. snd (snd src))
     (sources (handleMountFailure (handleMountFailure demo_state 0 (js ''timed out'')) 0
                 (js ''timed out''))) =
     [RetryMount 0, RetryMount 0]"
  by (simp add: handleMountFailure_def scheduleRetry_def timeout_add_seconds_def notify_def
      Let_def demo_state_def demo_bookmark_def default_settings_def)

section \<open>Disabling a bookmark\<close>

lemma timers_toggle:
  "sources (toggleAutoMount rt s index state) = sources s \<and>
   timeoutIds (toggleAutoMount rt s index state) = timeoutIds s"
  by (simp add: toggleAutoMount_def saveBookmarkSettings_def Let_def)

lemma timers_loadBookmarkSettings:
  "sources (loadBookmarkSettings rt s) = sources s \<and>
   timeoutIds (loadBookmarkSettings rt s) = timeoutIds s \<and>
   pendingMounts (loadBookmarkSettings rt s) = pendingMounts s"
  by (simp add: loadBookmarkSettings_def Let_def console_error_def split: option.splits json.splits)

lemma timers_bookmarkSettingsChanged:
  "sources (bookmarkSettingsChanged rt s) = sources s \<and>
   timeoutIds (bookmarkSettingsChanged rt s) = timeoutIds s"
  using fs_only_fields(4,5) [OF fs_only_updateBookmarksList [of "loadBookmarkSettings rt s"]]
  by (simp add: bookmarkSettingsChanged_def timers_loadBookmarkSettings)

lemma toggle_disables:
  "index < length (bookmarks s) \<Longrightarrow>
   \<not> enabled (objs (toggleAutoMount rt s index False) (bookmarks s ! index))"
  by (simp add: toggleAutoMount_def saveBookmarkSettings_def Let_def)

lemma checkBookmark_disabled:
  "\<not> enabled (objs s r) \<Longrightarrow>
   checkBookmark isStartup r (s, n, m) =
     ((if isLocationMounted s (uri (objs s r)) \<and> createSymlink (objs s r)
       then snd (createSymlink_fn s (objs s r)) else s), n, m)"
  by (simp add: checkBookmark_def Let_def)

lemma checkBookmark_disabled_pending:
  "\<not> enabled (objs s r) \<Longrightarrow>
   pendingMounts (fst (checkBookmark isStartup r (s, n, m))) = pendingMounts s"
  using fs_only_fields(7) [OF fs_only_createSymlink [of s "objs s r"]]
  by (simp add: checkBookmark_disabled)

lemma fire_retry_disabled:
  "\<not> enabled (objs s r) \<Longrightarrow>
   find (\<lambda>src. fst src = i) (sources s) = Some (i, d, RetryMount r) \<Longrightarrow>
   fire rt s i = source_remove (s\<lparr>timeoutIds := timeoutIds s - {i}\<rparr>) i"
  by (simp add: fire_def run_task_def Let_def)

lemma notify_frame:
  "objs (notify s t m e) = objs s \<and> pendingMounts (notify s t m e) = pendingMounts s"
  by (simp add: notify_def)

lemma handleMountFailure_frame:
  "enabled (objs (handleMountFailure s r e) r') = enabled (objs s r') \<and>
   pendingMounts (handleMountFailure s r e) = pendingMounts s"
  by (simp add: handleMountFailure_def scheduleRetry_def timeout_add_seconds_def notify_def Let_def)

lemma mountLocation_frame:
  "enabled (objs (mountLocation s r isRetry isStartup) r') = enabled (objs s r') \<and>
   set (pendingMounts (mountLocation s r isRetry isStartup)) \<subseteq>
     insert (r, isStartup) (set (pendingMounts s))"
proof (cases "isLocationMounted s (uri (objs s r))")
  case True
  show ?thesis
    using True fs_only_fields(2,7) [OF fs_only_createSymlink [of s "objs s r"]]
    by (auto simp: mountLocation_def Let_def notify_frame)
next
  case False
  then show ?thesis
    by (auto simp: mountLocation_def Let_def handleMountFailure_frame console_error_def
        split: option.splits)
qed

lemma checkBookmark_frame:
  "enabled (objs (fst (checkBookmark isStartup r acc)) r') = enabled (objs (fst acc) r') \<and>
   (\<forall>q\<in>set (pendingMounts (fst (checkBookmark isStartup r acc))).
      q \<in> set (pendingMounts (fst acc)) \<or> enabled (objs (fst acc) (fst q)))"
proof -
  obtain s n m where a: "acc = (s, n, m)" by (metis prod_cases3)
  show ?thesis
  proof (cases "enabled (objs s r) \<and> \<not> isLocationMounted s (uri (objs s r))")
    case True
    then have "fst (checkBookmark isStartup r acc) = mountLocation s r False isStartup"
      by (simp add: a checkBookmark_def Let_def)
    then show ?thesis using True mountLocation_frame [of s r False isStartup r'] a by auto
  next
    case False
    then have "fst (checkBookmark isStartup r acc) = s \<or>
               fst (checkBookmark isStartup r acc) = snd (createSymlink_fn s (objs s r))"
      by (auto simp: a checkBookmark_def Let_def)
    then show ?thesis
      using fs_only_fields(2,7) [OF fs_only_createSymlink [of s "objs s r"]] a by auto
  qed
qed

lemma check_loop_frame:
  "(\<forall>r'. enabled (objs (fst (fold (checkBookmark isStartup) rs acc)) r') = enabled (objs (fst acc) r')) \<and>
   (\<forall>q\<in>set (pendingMounts (fst (fold (checkBookmark isStartup) rs acc))).
      q \<in> set (pendingMounts (fst acc)) \<or> enabled (objs (fst acc) (fst q)))"
proof (induction rs arbitrary: acc)
  case Nil
  then show ?case by simp
next
  case (Cons r rs)
  show ?case
    using Cons [of "checkBookmark isStartup r acc"] checkBookmark_frame [of isStartup r acc]
    by (simp del: split_paired_All) blast
qed

lemma pending_loadBookmarks: "pendingMounts (loadBookmarks rt s) = pendingMounts s"
proof (cases "bookmarks_file (os s)")
  case Missing
  then show ?thesis
    using fs_only_fields(7) [OF fs_only_updateBookmarksList [of s]] by (simp add: loadBookmarks_def)
next
  case Unreadable
  then show ?thesis by (simp add: loadBookmarks_def console_error_def)
next
  case (Contents c)
  then show ?thesis
    using fs_only_fields(7) [OF fs_only_updateBookmarksList]
    by (simp add: loadBookmarks_def Let_def timers_loadBookmarkSettings)
qed

lemma checkAndMountAll_pending:
  assumes "q \<in> set (pendingMounts (checkAndMountAll rt s manual isStartup))"
  shows "q \<in> set (pendingMounts s) \<or> enabled (objs (loadBookmarks rt s) (fst q))"
proof -
  define s1 where "s1 = loadBookmarks rt s"
  define res where "res = fold (checkBookmark isStartup) (bookmarks s1) (s1, 0, 0)"
  have "pendingMounts (checkAndMountAll rt s manual isStartup) = pendingMounts (fst res)"
    by (simp add: checkAndMountAll_def Let_def s1_def [symmetric] res_def [symmetric]
        case_prod_beta notify_frame)
  then have "q \<in> set (pendingMounts (fst res))" using assms by simp
  then have "q \<in> set (pendingMounts s1) \<or> enabled (objs s1 (fst q))"
    using check_loop_frame [of isStartup "bookmarks s1" "(s1, 0, 0)"] by (auto simp: res_def)
  then show ?thesis by (simp add: s1_def pending_loadBookmarks)
qed

text \<open>
  C3, amended. Switching Auto Mount off for a bookmark, and the reload of the persisted
  settings that follows it, cancel no timer: a pending retry of the bookmark stays
  pending and tracked. The bookmark object is disabled from then on. For a bookmark
  object that is disabled, a reconciliation pass issues no mount request and still
  refreshes the symbolic link if the bookmark is mounted and \<open>createSymlink\<close> is set, and
  a retry timer that fires for the object only removes itself. Every mount request a
  reconciliation pass adds is for a bookmark that is enabled after the reload.
\<close>

theorem disabled_bookmark_keeps_retry_skips_mount:
  "sources (step rt s (AutoMountToggled index False)) = sources s \<and>
   timeoutIds (step rt s (AutoMountToggled index False)) = timeoutIds s \<and>
   sources (step rt s BookmarkSettingsChanged) = sources s \<and>
   timeoutIds (step rt s BookmarkSettingsChanged) = timeoutIds s \<and>
   (index < length (bookmarks s) \<longrightarrow>
      \<not> enabled (objs (step rt s (AutoMountToggled index False)) (bookmarks s ! index))) \<and>
   (\<not> enabled (objs s r) \<longrightarrow>
      fst (checkBookmark isStartup r (s, n, m)) =
        (if isLocationMounted s (uri (objs s r)) \<and> createSymlink (objs s r)
         then snd (createSymlink_fn s (objs s r)) else s) \<and>
      pendingMounts (fst (checkBookmark isStartup r (s, n, m))) = pendingMounts s \<and>
      (\<forall>i d. find (\<lambda>src. fst src = i) (sources s) = Some (i, d, RetryMount r) \<longrightarrow>
         step rt s (TimerFired i) = source_remove (s\<lparr>timeoutIds := timeoutIds s - {i}\<rparr>) i)) \<and>
   (\<forall>q\<in>set (pendingMounts (checkAndMountAll rt s manual isStartup)).
      q \<in> set (pendingMounts s) \<or> enabled (objs (loadBookmarks rt s) (fst q)))"
  using timers_toggle [of rt s index False] timers_bookmarkSettingsChanged [of rt s]
    toggle_disables [of index s rt] checkBookmark_disabled [of s r isStartup n m]
    checkBookmark_disabled_pending [of s r isStartup n m] fire_retry_disabled [of s r _ _ rt]
    checkAndMountAll_pending [of _ rt s manual isStartup]
  by (simp add: step_def)

theorem disabled_bookmark_keeps_retry_skips_mount_witness:
  "\<not> enabled (objs (step demo_platform retrying_state (AutoMountToggled 0 False)) 0) \<and>
   pendingMounts (step demo_platform (step demo_platform retrying_state (AutoMountToggled 0 False))
                    (TimerFired 1)) = [] \<and>
   sources (step demo_platform (step demo_platform retrying_state (AutoMountToggled 0 False))
              (TimerFired 1)) = [] \<and>
   pendingMounts (step demo_platform retrying_state (TimerFired 1)) = [(0, False)]"
  using disabled_bookmark_keeps_retry_skips_mount
    [of demo_platform "step demo_platform retrying_state (AutoMountToggled 0 False)" 0 0 False 0 0
        False]
  by (simp add: retrying_state_def offline_state_def demo_state_def demo_os_def demo_bookmark_def
      step_def toggleAutoMount_def saveBookmarkSettings_def Let_def fire_def run_task_def
      source_remove_def mountLocation_def isLocationMounted_def)

text \<open>
  C3 as it is worded fails in its first part: after the switch is turned off, the retry
  that was pending is pending still.
\<close>

theorem disabling_keeps_retry_counterexample:
  "sources retrying_state = [(1, 30, RetryMount 0)] \<and>
   \<not> enabled (objs (step demo_platform retrying_state (AutoMountToggled 0 False)) 0) \<and>
   sources (step demo_platform retrying_state (AutoMountToggled 0 False)) = [(1, 30, RetryMount 0)] \<and>
   timeoutIds (step demo_platform retrying_state (AutoMountToggled 0 False)) = {1}"
  by (simp add: retrying_state_def offline_state_def demo_state_def step_def toggleAutoMount_def
      saveBookmarkSettings_def Let_def)

section \<open>Removing and creating the symbolic link\<close>

text \<open>
  C6, amended. \<open>_removeSymlink\<close> looks at one path, the tracked one or else the
  computed one. No entry that is not a symbolic link is ever deleted, and no entry at
  another path changes. When nothing is at the path, or what is there is not a symbolic
  link, the file system is left as it is and the tracked record of the bookmark's URI is
  cleared; when a symbolic link is there and its deletion succeeds, the link is deleted
  and the record is cleared. When a symbolic link is there and its deletion raises, the
  operation reports failure, writes a diagnostic, and leaves the file system and the
  record as they were.
\<close>

theorem removeSymlink_deletes_only_symlinks:
  "(\<forall>q e. entries (os s) q = Some e \<and> \<not> is_symlink e \<longrightarrow>
           entries (os (snd (removeSymlink s b))) q = Some e) \<and>
   (\<forall>q. q \<noteq> link_path s b \<longrightarrow>
        entries (os (snd (removeSymlink s b))) q = entries (os s) q) \<and>
   (entries (os s) (link_path s b) = None \<longrightarrow>
      removeSymlink s b = (True, s\<lparr>symlinkPaths := (symlinkPaths s)(uri b := None)\<rparr>)) \<and>
   (\<forall>e. entries (os s) (link_path s b) = Some e \<and> \<not> is_symlink e \<longrightarrow>
      removeSymlink s b = (True, s\<lparr>symlinkPaths := (symlinkPaths s)(uri b := None)\<rparr>)) \<and>
   (\<forall>e. entries (os s) (link_path s b) = Some e \<and> is_symlink e \<and>
        link_path s b \<notin> locked (os s) \<longrightarrow>
      fst (removeSymlink s b) \<and>
      entries (os (snd (removeSymlink s b))) = (entries (os s))(link_path s b := None) \<and>
      symlinkPaths (snd (removeSymlink s b)) = (symlinkPaths s)(uri b := None)) \<and>
   (\<forall>e. entries (os s) (link_path s b) = Some e \<and> is_symlink e \<and>
        link_path s b \<in> locked (os s) \<longrightarrow>
      removeSymlink s b = (False, s\<lparr>console := console s @ [(Error, js ''Error removing symlink:'')]\<rparr>))"
  by (auto simp: removeSymlink_cases console_log_def console_error_def
      split: option.splits fsentry.splits)

theorem removeSymlink_deletes_only_symlinks_witness:
  "fst (removeSymlink linked_state demo_bookmark) \<and>
   entries (os (snd (removeSymlink linked_state demo_bookmark)))
     (js ''/home/u/NetworkMounts/My_Share_data'') = None \<and>
   entries (os (snd (removeSymlink linked_state demo_bookmark))) (js ''/home/u/notes.txt'') =
     Some RegularFile \<and>
   symlinkPaths (snd (removeSymlink linked_state demo_bookmark)) (js ''smb://server/share'') = None \<and>
   entries (os (snd (removeSymlink blocked_state demo_bookmark)))
     (js ''/home/u/NetworkMounts/My_Share_data'') = Some RegularFile \<and>
   console (snd (removeSymlink refused_state demo_bookmark)) =
     [(Error, js ''Error removing symlink:'')]"
  using removeSymlink_deletes_only_symlinks [of linked_state demo_bookmark]
    removeSymlink_deletes_only_symlinks [of blocked_state demo_bookmark]
    removeSymlink_deletes_only_symlinks [of refused_state demo_bookmark]
  by (simp add: link_path_def linked_state_def blocked_state_def refused_state_def demo_state_def
      demo_bookmark_def demo_os_def default_settings_def getSymlinkPath_def
      sanitizeForFilename_def strip_edge_underscores_def is_problematic_def
      is_js_whitespace_def Let_def)

text \<open>
  C6 as it is worded fails when the link is there and its deletion raises: the
  \<open>catch\<close> returns before the record is cleared, so the link and its record both
  stay.
\<close>

theorem removeSymlink_refused_keeps_record_counterexample:
  "entries (os refused_state) (js ''/home/u/NetworkMounts/My_Share_data'') =
     Some (Symlink (js ''/run/user/1000/gvfs/share'')) \<and>
   \<not> fst (removeSymlink refused_state demo_bookmark) \<and>
   entries (os (snd (removeSymlink refused_state demo_bookmark)))
     (js ''/home/u/NetworkMounts/My_Share_data'') =
     Some (Symlink (js ''/run/user/1000/gvfs/share'')) \<and>
   symlinkPaths (snd (removeSymlink refused_state demo_bookmark)) (js ''smb://server/share'') =
     Some (js ''/home/u/NetworkMounts/My_Share_data'')"
  by (simp add: removeSymlink_def delete_file_def console_error_def refused_state_def
      linked_state_def demo_state_def demo_bookmark_def demo_os_def Let_def)










section \<open>Destruction\<close>

text \<open>When every pending timer is the periodic one or a tracked one, as it is for every
  timer the indicator starts, destruction leaves no timer and no tracked link.\<close>

lemma destroy_cancels_timers:
  assumes "timers_tracked s"
  shows "sources (destroy s) = [] \<and> timeoutId (destroy s) = None \<and> timeoutIds (destroy s) = {} \<and>
         symlinkPaths (destroy s) = Map.empty"
proof -
  define s1 where "s1 = (case timeoutId s of None \<Rightarrow> s | Some i \<Rightarrow> (source_remove s i)\<lparr>timeoutId := None\<rparr>)"
  define s2 where "s2 = s1\<lparr>sources := filter (\<lambda>src. fst src \<notin> timeoutIds s1) (sources s1), timeoutIds := {}\<rparr>"
  have a: "sources s2 = []"
    using assms
    by (auto simp: s2_def s1_def timers_tracked_def source_remove_def list_all_iff filter_empty_conv
        split: option.splits)
  have b: "timeoutId s2 = None" "timeoutIds s2 = {}"
    by (auto simp: s2_def s1_def source_remove_def split: option.splits)
  have f: "fs_only s2 (fold (\<lambda>r s'. if createSymlink (objs s' r) then snd (removeSymlink s' (objs s' r)) else s')
           (bookmarks s2) s2)"
    by (rule fs_only_cleanup_loop)
  have d: "destroy s = (cleanupAllSymlinks s2)\<lparr>source_destroyed := True\<rparr>"
    by (simp add: destroy_def s1_def s2_def Let_def)
  show ?thesis
    unfolding d cleanupAllSymlinks_def
    using a b fs_only_fields(4-6) [OF f] by simp
qed

text \<open>
  C5 fails on the program. The link of the example bookmark is created and tracked; the
  persisted settings then change to no symbolic link for the bookmark, which the handler
  of the settings applies; the extension is disabled. \<open>_cleanupAllSymlinks\<close> walks
  the bookmarks that have \<open>createSymlink\<close> set, not the tracked links, so the link stays
  in the file system while its record is dropped.
\<close>

theorem destroy_leaves_tracked_symlink:
  "symlinkPaths (step unticked_platform (snd (createSymlink_fn demo_state demo_bookmark))
       BookmarkSettingsChanged) (js ''smb://server/share'') =
     Some (js ''/home/u/NetworkMounts/My_Share_data'') \<and>
   \<not> createSymlink (objs (step unticked_platform (snd (createSymlink_fn demo_state demo_bookmark))
       BookmarkSettingsChanged) 0) \<and>
   entries (os (step unticked_platform
       (step unticked_platform (snd (createSymlink_fn demo_state demo_bookmark))
          BookmarkSettingsChanged) Disabled))
     (js ''/home/u/NetworkMounts/My_Share_data'') =
     Some (Symlink (js ''/run/user/1000/gvfs/share'')) \<and>
   symlinkPaths (step unticked_platform
       (step unticked_platform (snd (createSymlink_fn demo_state demo_bookmark))
          BookmarkSettingsChanged) Disabled) (js ''smb://server/share'') = None"
  by (simp add: step_def destroy_def cleanupAllSymlinks_def bookmarkSettingsChanged_def
      loadBookmarkSettings_def updateBookmarksList_def apply_persisted_def unticked_platform_def
      isLocationMounted_def demo_state_def demo_bookmark_def demo_os_def
      default_settings_def createSymlink_fn_def removeSymlink_def getGvfsMountPath_def
      getSymlinkPath_def make_directory_with_parents_def make_symbolic_link_def
      delete_file_def path_get_dirname_def console_log_def console_error_def Let_def
      sanitizeForFilename_def strip_edge_underscores_def is_problematic_def
      is_js_whitespace_def)

theorem destroy_leaves_tracked_symlink_witness:
  "entries (os (step unticked_platform
       (step unticked_platform (snd (createSymlink_fn demo_state demo_bookmark))
          BookmarkSettingsChanged) Disabled))
     (js ''/home/u/NetworkMounts/My_Share_data'') \<noteq> None"
  using destroy_leaves_tracked_symlink by simp

section \<open>Malformed persisted settings\<close>

lemma fold_assign_other:
  "r \<notin> fst ` set ps \<Longrightarrow> fold (\<lambda>(r, b) ob. ob(r := b)) ps ob r = ob r"
  by (induction ps arbitrary: ob) auto

lemma fold_assign_in:
  "r \<in> fst ` set ps \<Longrightarrow> fold (\<lambda>(r, b) ob. ob(r := b)) ps ob r \<in> snd ` set ps"
proof (induction ps arbitrary: ob)
  case Nil
  then show ?case by simp
next
  case (Cons p ps)
  show ?case
  proof (cases "r \<in> fst ` set ps")
    case True
    then show ?thesis using Cons.IH [of "ob(fst p := snd p)"] by (auto simp: case_prod_beta)
  next
    case False
    then have e: "r = fst p" using Cons.prems by auto
    have "fold (\<lambda>(r, b) ob. ob(r := b)) (p # ps) ob r =
          fold (\<lambda>(r, b) ob. ob(r := b)) ps (ob(fst p := snd p)) r"
      by (simp add: case_prod_beta)
    also have "\<dots> = (ob(fst p := snd p)) r"
      using False by (rule fold_assign_other)
    also have "\<dots> = snd p" using e by simp
    finally have "fold (\<lambda>(r, b) ob. ob(r := b)) (p # ps) ob r = snd p" .
    then show ?thesis by (metis image_eqI list.set_intros(1))
  qed
qed

lemma parse_bookmark_line_defaults:
  "enabled (parse_bookmark_line rt l) \<and> \<not> createSymlink (parse_bookmark_line rt l) \<and>
   symlinkPath (parse_bookmark_line rt l) = [] \<and> failCount (parse_bookmark_line rt l) = 0"
  by (simp add: parse_bookmark_line_def Let_def)

lemma loadBookmarkSettings_malformed:
  "JSON_parse rt (bookmark_settings (settings s)) = None \<Longrightarrow>
   bookmark_settings (settings s) \<noteq> [] \<Longrightarrow>
   loadBookmarkSettings rt s = console_error s (js ''Error loading bookmark settings:'')"
  by (simp add: loadBookmarkSettings_def Let_def)

lemma bookmarks_loadBookmarkSettings: "bookmarks (loadBookmarkSettings rt s) = bookmarks s"
  by (simp add: loadBookmarkSettings_def Let_def console_error_def split: option.splits json.splits)

lemma loadBookmarks_bookmarks:
  assumes "bookmarks_file (os s) = Contents c"
  shows "bookmarks (loadBookmarks rt s) =
     [next_obj s ..< next_obj s + length
        (filter (\<lambda>line. js_trim line \<noteq> [] \<and> includes_str line (js ''://'') \<and>
                                      \<not> startsWith line (js ''file://'')) (js_split 10 c))]"
  using assms fs_only_fields(3) [OF fs_only_updateBookmarksList]
  by (simp add: loadBookmarks_def Let_def bookmarks_loadBookmarkSettings)

lemma loadBookmarks_fresh_defaults:
  assumes "JSON_parse rt (bookmark_settings (settings s)) = None"
    and "bookmark_settings (settings s) \<noteq> []"
    and "bookmarks_file (os s) = Contents c"
    and "r \<in> set (bookmarks (loadBookmarks rt s))"
  shows "enabled (objs (loadBookmarks rt s) r) \<and> \<not> createSymlink (objs (loadBookmarks rt s) r) \<and>
         symlinkPath (objs (loadBookmarks rt s) r) = []"
proof -
  define created where "created = map (parse_bookmark_line rt)
           (filter (\<lambda>line. js_trim line \<noteq> [] \<and> includes_str line (js ''://'') \<and>
                                      \<not> startsWith line (js ''file://'')) (js_split 10 c))"
  define refs where "refs = [next_obj s ..< next_obj s + length created]"
  define s1 where "s1 = s\<lparr>objs := fold (\<lambda>(r, b) ob. ob(r := b)) (zip refs created) (objs s),
       next_obj := next_obj s + length created, bookmarks := refs\<rparr>"
  have l: "loadBookmarks rt s = updateBookmarksList (loadBookmarkSettings rt s1)"
    using assms(3) by (simp add: loadBookmarks_def Let_def s1_def refs_def created_def)
  have "loadBookmarkSettings rt s1 = console_error s1 (js ''Error loading bookmark settings:'')"
    using assms(1,2) by (simp add: loadBookmarkSettings_malformed s1_def)
  then have f: "fs_only s1 (loadBookmarks rt s)"
    using l fs_only_trans [OF fs_only_console_error fs_only_updateBookmarksList] by simp
  have o: "objs (loadBookmarks rt s) = objs s1" and b: "bookmarks (loadBookmarks rt s) = refs"
    using fs_only_fields(2,3) [OF f] by (simp_all add: s1_def)
  have len: "length refs = length created" by (simp add: refs_def)
  have "r \<in> fst ` set (zip refs created)"
    using assms(4) b len by (metis map_fst_zip set_map)
  then have "objs s1 r \<in> snd ` set (zip refs created)"
    using fold_assign_in [of r "zip refs created" "objs s"] by (simp add: s1_def)
  then have "objs s1 r \<in> set created"
    using len by (metis map_snd_zip set_map)
  then obtain l where "objs s1 r = parse_bookmark_line rt l" by (auto simp: created_def)
  then show ?thesis using o parse_bookmark_line_defaults [of rt l] by simp
qed

text \<open>
  C9, amended. When the persisted settings are not empty and do not parse,
  \<open>_loadBookmarkSettings\<close> changes no bookmark, writes one diagnostic to the console and
  returns normally. The bookmarks \<open>_loadBookmarks\<close> has just created from the bookmarks
  file therefore keep their defaults: enabled, no symbolic link, empty \<open>symlinkPath\<close>.
\<close>

theorem malformed_settings_leave_bookmarks_unchanged:
  "JSON_parse rt (bookmark_settings (settings s)) = None \<Longrightarrow>
   bookmark_settings (settings s) \<noteq> [] \<Longrightarrow>
   objs (loadBookmarkSettings rt s) = objs s \<and>
   bookmarks (loadBookmarkSettings rt s) = bookmarks s \<and>
   console (loadBookmarkSettings rt s) =
     console s @ [(Error, js ''Error loading bookmark settings:'')] \<and>
   (\<forall>c r. bookmarks_file (os s) = Contents c \<and> r \<in> set (bookmarks (loadBookmarks rt s)) \<longrightarrow>
      enabled (objs (loadBookmarks rt s) r) \<and> \<not> createSymlink (objs (loadBookmarks rt s) r) \<and>
      symlinkPath (objs (loadBookmarks rt s) r) = [])"
  using loadBookmarks_fresh_defaults [of rt s]
  by (simp add: loadBookmarkSettings_malformed console_error_def)

theorem malformed_settings_leave_bookmarks_unchanged_witness:
  "JSON_parse demo_platform (bookmark_settings (settings broken_state)) = None \<and>
   console (loadBookmarkSettings demo_platform broken_state) =
     [(Error, js ''Error loading bookmark settings:'')] \<and>
   bookmarks (loadBookmarks demo_platform broken_state) = [1] \<and>
   enabled (objs (loadBookmarks demo_platform broken_state) 1)"
proof -
  have p: "JSON_parse demo_platform (bookmark_settings (settings broken_state)) = None"
    by (simp add: broken_state_def demo_platform_def default_settings_def)
  have n: "bookmark_settings (settings broken_state) \<noteq> []"
    by (simp add: broken_state_def default_settings_def)
  have f: "bookmarks_file (os broken_state) = Contents (js ''smb://server/share Share'')"
    by (simp add: broken_state_def demo_state_def demo_os_def)
  have b: "bookmarks (loadBookmarks demo_platform broken_state) = [1]"
    unfolding loadBookmarks_bookmarks [OF f]
    by (simp add: broken_state_def demo_state_def js_trim_def is_js_whitespace_def startsWith_def)
  show ?thesis
    using malformed_settings_leave_bookmarks_unchanged [OF p n] p b f
    by (simp add: broken_state_def demo_state_def)
qed

text \<open>
  C9 as it is worded fails when the settings become malformed after valid settings have
  been applied: a bookmark that was disabled stays disabled, which is not its default.
\<close>

theorem malformed_settings_keep_disabled_counterexample:
  "JSON_parse demo_platform (bookmark_settings (settings broken_state)) = None \<and>
   \<not> enabled (objs (loadBookmarkSettings demo_platform broken_state) 0) \<and>
   \<not> enabled (objs (step demo_platform broken_state BookmarkSettingsChanged) 0)"
proof -
  have "objs (step demo_platform broken_state BookmarkSettingsChanged) =
        objs (loadBookmarkSettings demo_platform broken_state)"
    using fs_only_fields(2) [OF fs_only_updateBookmarksList]
    by (simp add: step_def bookmarkSettingsChanged_def)
  then show ?thesis
    by (simp add: broken_state_def demo_state_def demo_bookmark_def demo_platform_def
        default_settings_def loadBookmarkSettings_def console_error_def Let_def)
qed

end
